theory Spec2Isabelle
  imports Main "HOL-Library.Word" "HOL-Library.AList"
begin

section \<open>Values, errors and effects\<close>

text \<open>
  A Python \<open>bytes\<close> or \<open>bytearray\<close> value is a list of 8-bit words, a Python \<open>str\<close> is a
  \<open>string\<close>.
\<close>

type_synonym bytes = "8 word list"

text \<open>
  A website datum is a Python sequence of two strings, read by \<open>datum[0]\<close> and \<open>datum[1]\<close>.
  It is either a tuple, which is what \<open>set_website_data\<close> demands and what both methods write,
  or a list, which is what \<open>json.loads\<close> returns for it.
\<close>

datatype website_datum = Datum_tuple string string | Datum_list string string

fun item0 :: "website_datum \<Rightarrow> string" where
  "item0 (Datum_tuple t d) = t"
| "item0 (Datum_list t d) = t"

fun item1 :: "website_datum \<Rightarrow> string" where
  "item1 (Datum_tuple t d) = d"
| "item1 (Datum_list t d) = d"

text \<open>The exceptions the two modules raise or let through.\<close>

datatype error =
    TypeError
  | ValueError
  | KeyError
  | NameError
  | JSONDecodeError
  | UnicodeDecodeError
  | Binascii_Error
  | WrongKeyError
  | FileNotFoundError
  | ComputationError int
  | EngineError

text \<open>
  The buffers a caller hands in, and the effects a call has on the outside world, in the order
  in which they happen.  \<open>Delete_bytearray b\<close> is one call \<open>encryption.delete_bytearray(b)\<close>;
  a buffer is wiped by nothing else.  \<open>Try_datum i\<close> is the entry into the \<open>try\<close> block of
  \<open>get_website_data\<close> for the tuple at index \<open>i\<close>, \<open>Encrypt_datum i\<close> the loop body of
  \<open>set_website_data\<close> at index \<open>i\<close>.
\<close>

datatype buffer = User_key | Data | Password | Pin | Encryptedtext

datatype event =
    Delete_bytearray buffer
  | Try_datum nat
  | Encrypt_datum nat
  | File_read string
  | File_write string bytes
  | Rmtree string

section \<open>The record store of \<open>binder.py\<close>\<close>

text \<open>
  \<open>website_info\<close> is the dictionary with the keys \<open>__name__\<close>, \<open>__encrypted__\<close> and
  \<open>__data__\<close>.  \<open>userdict\<close> is a Python dictionary: an association list in insertion order.
  \<open>private_website_code\<close> is the class attribute of \<open>Binder\<close>, read through \<open>self\<close>.
\<close>

record website_info =
  info_name :: string
  info_encrypted :: bool
  info_data :: "website_datum list"

type_synonym userdict = "(string \<times> website_info) list"

record Binder =
  userdict :: userdict
  private_website_code :: "string list"

definition code_lenght :: nat where
  "code_lenght = 10"

definition encryption_iterations :: nat where
  "encryption_iterations = 100000"

text \<open>
  The standard library functions the class calls (\<open>str.encode\<close>, \<open>bytes.decode\<close>,
  \<open>json\<close>, \<open>base64\<close>, \<open>random.choice\<close>) are parameters.  \<open>random_choice n\<close> is the index
  that the \<open>n\<close>-th call of \<open>random.choice\<close> picks.
\<close>

record stdlib =
  utf8_encode :: "string \<Rightarrow> bytes"
  utf8_decode :: "bytes \<Rightarrow> error + string"
  json_dumps :: "userdict \<Rightarrow> string"
  json_loads :: "string \<Rightarrow> error + userdict"
  b64encode :: "bytes \<Rightarrow> bytes"
  b64decode :: "string \<Rightarrow> error + bytes"
  random_choice :: "nat \<Rightarrow> nat"

text \<open>
  The module \<open>encryption\<close> is not part of the repository; its functions are parameters, each
  with the shape of the calls made to it.  \<open>binder.py\<close> calls
  \<open>data_to_encryptedtext(data, key, iterations=n)\<close> and
  \<open>encryptedtext_to_data(text, key, iterations=n)\<close>, takes the result as bytes and catches
  \<open>WrongKeyError\<close>; the first argument of \<open>data_to_encryptedtext\<close> here numbers the call,
  since the cipher text may differ from call to call.  \<open>filesmanager.py\<close> calls the same names
  with \<open>pin=\<close> and unpacks a triple \<open>(is_error, error, result)\<close>: these are the fields
  \<open>pin_data_to_encryptedtext\<close> and \<open>pin_encryptedtext_to_data\<close>.
\<close>

record encryption =
  data_to_encryptedtext :: "nat \<Rightarrow> bytes \<Rightarrow> bytes \<Rightarrow> nat \<Rightarrow> error + bytes"
  encryptedtext_to_data :: "bytes \<Rightarrow> bytes \<Rightarrow> nat \<Rightarrow> error + bytes"
  pin_data_to_encryptedtext :: "bytes \<Rightarrow> bytes \<Rightarrow> bytes \<Rightarrow> bool \<times> int \<times> bytes"
  pin_encryptedtext_to_data :: "bytes \<Rightarrow> bytes \<Rightarrow> bytes \<Rightarrow> bool \<times> int \<times> bytes"
  random_bytearray :: "nat \<Rightarrow> bytes"

subsection \<open>\<open>load\<close> and \<open>dump\<close>\<close>

text \<open>
  \<open>Binder.load\<close>: an empty buffer gives the empty dictionary, any other buffer is decoded and
  parsed.  The result is the outcome, the binder afterwards and the effects of the call.  The
  body calls \<open>delete_bytearray\<close> nowhere and does not assign to \<open>data\<close>.
\<close>

definition load :: "stdlib \<Rightarrow> Binder \<Rightarrow> bytes \<Rightarrow> (error + unit) \<times> Binder \<times> event list" where
  "load L self data =
     (if length data = 0 then (Inr (), self\<lparr>userdict := []\<rparr>, [])
      else (case utf8_decode L data of
              Inl e \<Rightarrow> (Inl e, self, [])
            | Inr text \<Rightarrow>
                (case json_loads L text of
                   Inl e \<Rightarrow> (Inl e, self, [])
                 | Inr d \<Rightarrow> (Inr (), self\<lparr>userdict := d\<rparr>, []))))"


subsection \<open>What a dictionary keeps through JSON\<close>

text \<open>
  JSON has arrays only: \<open>json.dumps\<close> writes a tuple and a list alike, and \<open>json.loads\<close>
  reads an array as a list.  \<open>reloaded d\<close> is the dictionary \<open>d\<close> with every datum as a list;
  \<open>lists_only d\<close> says that \<open>d\<close> holds no tuple; \<open>dict_content d\<close> is what does not depend on the
  kind of sequence: the codes in their order, and for each code the name, the flag and the pairs
  of strings of the data.
\<close>

fun as_list :: "website_datum \<Rightarrow> website_datum" where
  "as_list (Datum_tuple t d) = Datum_list t d"
| "as_list (Datum_list t d) = Datum_list t d"


definition reloaded :: "userdict \<Rightarrow> userdict" where
  "reloaded d =
     map (\<lambda>(website_code, info).
            (website_code, info\<lparr>info_data := map as_list (info_data info)\<rparr>)) d"



subsection \<open>Website codes\<close>

definition listing_website_codes :: "Binder \<Rightarrow> string list" where
  "listing_website_codes self =
     filter (\<lambda>website_code. website_code \<notin> set (private_website_code self))
       (map fst (userdict self))"

definition is_website_code :: "Binder \<Rightarrow> string \<Rightarrow> bool" where
  "is_website_code self website_code \<longleftrightarrow> website_code \<in> set (listing_website_codes self)"

text \<open>\<open>string.ascii_letters + string.digits\<close>.\<close>

definition chars :: string where
  "chars = ''abcdefghijklmnopqrstuvwxyzABCDEFGHIJKLMNOPQRSTUVWXYZ0123456789''"

text \<open>
  \<open>random.choice(chars)\<close> for the \<open>n\<close>-th time: the character at the index drawn, which
  \<open>random.choice\<close> keeps below the length of the sequence.  \<open>draw_code L n\<close> is the join of
  \<open>code_lenght\<close> draws, the first of them being draw number \<open>n\<close>.
\<close>

definition choice :: "stdlib \<Rightarrow> nat \<Rightarrow> string \<Rightarrow> char" where
  "choice L n s = s ! (random_choice L n mod length s)"

definition draw_code :: "stdlib \<Rightarrow> nat \<Rightarrow> string" where
  "draw_code L n = map (\<lambda>t. choice L (n + t) chars) [0..<code_lenght]"

text \<open>
  The \<open>while\<close> loop of \<open>generate_website_code\<close>; it has no bound, so the function is partial:
  \<open>None\<close> is a loop that never ends.
\<close>

partial_function (option) generate_loop ::
  "stdlib \<Rightarrow> string list \<Rightarrow> string list \<Rightarrow> nat \<Rightarrow> string option" where
  "generate_loop L website_codes private n =
     (let website_code = draw_code L n in
      if website_code \<in> set website_codes \<or> website_code \<in> set private
      then generate_loop L website_codes private (n + code_lenght)
      else Some website_code)"

definition generate_website_code :: "stdlib \<Rightarrow> Binder \<Rightarrow> string option" where
  "generate_website_code L self =
     generate_loop L (listing_website_codes self) (private_website_code self) 0"

subsection \<open>Accessors of one website\<close>

text \<open>\<open>self.userdict[website_code]\<close>, which raises \<open>KeyError\<close> on a missing key.\<close>

definition getitem :: "userdict \<Rightarrow> string \<Rightarrow> error + website_info" where
  "getitem d website_code =
     (case map_of d website_code of None \<Rightarrow> Inl KeyError | Some info \<Rightarrow> Inr info)"

definition get_website_name :: "Binder \<Rightarrow> string \<Rightarrow> error + string" where
  "get_website_name self website_code =
     (if \<not> is_website_code self website_code then Inl ValueError
      else map_sum id info_name (getitem (userdict self) website_code))"

definition set_website_name :: "Binder \<Rightarrow> string \<Rightarrow> string \<Rightarrow> (error + unit) \<times> Binder" where
  "set_website_name self website_code website_name =
     (if \<not> is_website_code self website_code then (Inl ValueError, self)
      else (case getitem (userdict self) website_code of
              Inl e \<Rightarrow> (Inl e, self)
            | Inr info \<Rightarrow>
                (Inr (), self\<lparr>userdict :=
                   AList.update website_code (info\<lparr>info_name := website_name\<rparr>) (userdict self)\<rparr>)))"

definition get_website_data_number :: "Binder \<Rightarrow> string \<Rightarrow> error + nat" where
  "get_website_data_number self website_code =
     (if \<not> is_website_code self website_code then Inl ValueError
      else map_sum id (\<lambda>info. length (info_data info)) (getitem (userdict self) website_code))"

definition is_encrypted_website_data :: "Binder \<Rightarrow> string \<Rightarrow> error + bool" where
  "is_encrypted_website_data self website_code =
     (if \<not> is_website_code self website_code then Inl ValueError
      else map_sum id info_encrypted (getitem (userdict self) website_code))"

definition remove_website :: "Binder \<Rightarrow> string \<Rightarrow> (error + unit) \<times> Binder" where
  "remove_website self website_code =
     (if \<not> is_website_code self website_code then (Inl ValueError, self)
      else (Inr (), self\<lparr>userdict := AList.delete website_code (userdict self)\<rparr>))"

text \<open>
  \<open>add_website\<close> stores the fresh entry and then calls \<open>set_website_name\<close>, whose error, if
  any, leaves the entry stored.
\<close>

definition add_website :: "Binder \<Rightarrow> string \<Rightarrow> string \<Rightarrow> (error + unit) \<times> Binder" where
  "add_website self website_code website_name =
     (if is_website_code self website_code then (Inl ValueError, self)
      else set_website_name
             (self\<lparr>userdict :=
                AList.update website_code
                  \<lparr>info_name = '''', info_encrypted = False, info_data = []\<rparr> (userdict self)\<rparr>)
             website_code website_name)"

subsection \<open>\<open>set_website_data_encryption\<close>\<close>

text \<open>
  The source defines this method as
  \<open>def set_website_data_encryption(website_code, set_encrypted: bool)\<close>, without \<open>self\<close>.
  Python binds the positional arguments of a call to the parameters in order and raises
  \<open>TypeError\<close> when their numbers differ; a call through an instance passes the instance
  first.  With two arguments the body runs, and its first expression reads the name \<open>self\<close>,
  which is bound neither in the function nor in the module: \<open>NameError\<close>.  No path reaches
  the assignment to \<open>__encrypted__\<close>.
\<close>

datatype pyarg = Arg_instance Binder | Arg_str string | Arg_bool bool

fun set_website_data_encryption :: "pyarg list \<Rightarrow> error + unit" where
  "set_website_data_encryption [website_code, set_encrypted] = Inl NameError"
| "set_website_data_encryption args = Inl TypeError"

text \<open>The call \<open>self.set_website_data_encryption(website_code, set_encrypted)\<close>.\<close>

definition call_set_website_data_encryption ::
  "Binder \<Rightarrow> string \<Rightarrow> bool \<Rightarrow> (error + unit) \<times> Binder" where
  "call_set_website_data_encryption self website_code set_encrypted =
     (set_website_data_encryption [Arg_instance self, Arg_str website_code, Arg_bool set_encrypted],
      self)"

subsection \<open>\<open>get_website_data\<close>\<close>

text \<open>The argument \<open>user_key\<close>: \<open>None\<close>, a value that is no bytearray, or a bytearray.\<close>

datatype user_key = Key_None | Key_other | Bytearray bytes

text \<open>
  The three statements of the \<open>try\<close> block for one datum: decode the base64 text, decrypt
  with a copy of the key, decode the plain bytes.  Each of them may raise.
\<close>

definition try_datum :: "stdlib \<Rightarrow> encryption \<Rightarrow> bytes \<Rightarrow> website_datum \<Rightarrow> error + website_datum" where
  "try_datum L E k datum =
     (case b64decode L (item1 datum) of
        Inl e \<Rightarrow> Inl e
      | Inr encrypted_datum \<Rightarrow>
          (case encryptedtext_to_data E encrypted_datum k encryption_iterations of
             Inl e \<Rightarrow> Inl e
           | Inr decrypted_datum \<Rightarrow>
               (case utf8_decode L decrypted_datum of
                  Inl e \<Rightarrow> Inl e
                | Inr text \<Rightarrow> Inr (Datum_tuple (item0 datum) text))))"

text \<open>
  The \<open>for\<close> loop over \<open>enumerate(website_data)\<close>, from index \<open>i\<close> on.  It assigns to
  \<open>website_data[index]\<close>, and \<open>website_data\<close> is the list held by the dictionary: the second
  component is that list when the loop is left.  The handler of \<open>WrongKeyError\<close> wipes the key
  and raises again; any other exception leaves the loop as it is.
\<close>

fun decrypt_loop ::
  "stdlib \<Rightarrow> encryption \<Rightarrow> bytes \<Rightarrow> nat \<Rightarrow> website_datum list
     \<Rightarrow> error option \<times> website_datum list \<times> event list" where
  "decrypt_loop L E k i [] = (None, [], [])"
| "decrypt_loop L E k i (datum # rest) =
     (case try_datum L E k datum of
        Inl e \<Rightarrow>
          (Some e, datum # rest,
           Try_datum i # (if e = WrongKeyError then [Delete_bytearray User_key] else []))
      | Inr decrypted \<Rightarrow>
          (case decrypt_loop L E k (Suc i) rest of
             (r, rest', evs) \<Rightarrow> (r, decrypted # rest', Try_datum i # evs)))"

text \<open>\<open>self.userdict[website_code]['__data__']\<close> after the loop has assigned to its elements.\<close>

definition store_data :: "Binder \<Rightarrow> string \<Rightarrow> website_info \<Rightarrow> website_datum list \<Rightarrow> Binder" where
  "store_data self website_code info website_data =
     self\<lparr>userdict :=
       AList.update website_code (info\<lparr>info_data := website_data\<rparr>) (userdict self)\<rparr>"

definition get_website_data ::
  "stdlib \<Rightarrow> encryption \<Rightarrow> Binder \<Rightarrow> string \<Rightarrow> user_key
     \<Rightarrow> (error + website_datum list) \<times> Binder \<times> event list" where
  "get_website_data L E self website_code user_key =
     (case is_encrypted_website_data self website_code of
        Inl e \<Rightarrow> (Inl e, self, [])
      | Inr is_encrypted \<Rightarrow>
          (case getitem (userdict self) website_code of
             Inl e \<Rightarrow> (Inl e, self, [])
           | Inr info \<Rightarrow>
               if \<not> is_encrypted then (Inr (info_data info), self, [])
               else (case user_key of
                       Key_None \<Rightarrow> (Inl TypeError, self, [])
                     | Key_other \<Rightarrow> (Inl TypeError, self, [])
                     | Bytearray k \<Rightarrow>
                         (case decrypt_loop L E k 0 (info_data info) of
                            (Some e, website_data, evs) \<Rightarrow>
                              (Inl e, store_data self website_code info website_data, evs)
                          | (None, website_data, evs) \<Rightarrow>
                              (Inr website_data, store_data self website_code info website_data,
                               evs @ [Delete_bytearray User_key])))))"

subsection \<open>\<open>set_website_data\<close>\<close>

text \<open>
  The argument \<open>website_data\<close> as Python hands it over, for the two checks on its shape.
\<close>

datatype pyval = Py_str string | Py_tuple "pyval list" | Py_list "pyval list" | Py_other

fun is_str :: "pyval \<Rightarrow> bool" where
  "is_str (Py_str s) = True"
| "is_str v = False"

text \<open>
  \<open>isinstance(website_datum, tuple) and len(website_datum) == 2 and all(isinstance(datum, str)
  for datum in website_datum)\<close>.
\<close>

fun well_structured :: "pyval \<Rightarrow> bool" where
  "well_structured (Py_tuple vs) = (length vs = 2 \<and> list_all is_str vs)"
| "well_structured v = False"

fun the_datum :: "pyval \<Rightarrow> website_datum" where
  "the_datum (Py_tuple [Py_str t, Py_str d]) = Datum_tuple t d"
| "the_datum v = Datum_tuple '''' ''''"

text \<open>
  The body of the loop of \<open>set_website_data\<close> for one datum: encode the text, encrypt it with
  a copy of the key (call number \<open>i\<close> to the engine), and write the cipher text as base64
  text.
\<close>

definition encrypt_datum ::
  "stdlib \<Rightarrow> encryption \<Rightarrow> bytes \<Rightarrow> nat \<Rightarrow> website_datum \<Rightarrow> error + website_datum" where
  "encrypt_datum L E k i datum =
     (case data_to_encryptedtext E i (utf8_encode L (item1 datum)) k encryption_iterations of
        Inl e \<Rightarrow> Inl e
      | Inr encrypted_datum \<Rightarrow>
          (case utf8_decode L (b64encode L encrypted_datum) of
             Inl e \<Rightarrow> Inl e
           | Inr text \<Rightarrow> Inr (Datum_tuple (item0 datum) text)))"

fun encrypt_loop ::
  "stdlib \<Rightarrow> encryption \<Rightarrow> bytes \<Rightarrow> nat \<Rightarrow> website_datum list
     \<Rightarrow> error option \<times> website_datum list \<times> event list" where
  "encrypt_loop L E k i [] = (None, [], [])"
| "encrypt_loop L E k i (datum # rest) =
     (case encrypt_datum L E k i datum of
        Inl e \<Rightarrow> (Some e, datum # rest, [Encrypt_datum i])
      | Inr encrypted \<Rightarrow>
          (case encrypt_loop L E k (Suc i) rest of
             (r, rest', evs) \<Rightarrow> (r, encrypted # rest', Encrypt_datum i # evs)))"

text \<open>
  \<open>set_website_data\<close> returns \<open>None\<close> on the plain path and the list on the encrypted one.
  The loop assigns to the elements of the list object that the caller passed, and that object
  is stored after the loop.  \<open>stored\<close> tells whether the object passed is the very list that
  the dictionary holds for this website, as it is when the caller passes on the list that
  \<open>get_website_data\<close> returned; \<open>website_data\<close> is then its content at the time of the call.
  An exception in the loop comes before the assignment to \<open>__data__\<close>: it leaves the
  dictionary as it was when the list is the caller's own, and leaves the elements written so far
  in the dictionary when the list is the stored one.  The list is taken to be shared with no
  other website.
\<close>

definition set_website_data ::
  "stdlib \<Rightarrow> encryption \<Rightarrow> Binder \<Rightarrow> string \<Rightarrow> pyval \<Rightarrow> bool \<Rightarrow> user_key
     \<Rightarrow> (error + website_datum list option) \<times> Binder \<times> event list" where
  "set_website_data L E self website_code website_data stored user_key =
     (case website_data of
        Py_list items \<Rightarrow>
          if \<not> list_all well_structured items then (Inl ValueError, self, [])
          else (case is_encrypted_website_data self website_code of
                  Inl e \<Rightarrow> (Inl e, self, [])
                | Inr is_encrypted \<Rightarrow>
                    (case getitem (userdict self) website_code of
                       Inl e \<Rightarrow> (Inl e, self, [])
                     | Inr info \<Rightarrow>
                         if \<not> is_encrypted
                         then (Inr None, store_data self website_code info (map the_datum items), [])
                         else (case user_key of
                                 Key_None \<Rightarrow> (Inl TypeError, self, [])
                               | Key_other \<Rightarrow> (Inl TypeError, self, [])
                               | Bytearray k \<Rightarrow>
                                   (case encrypt_loop L E k 0 (map the_datum items) of
                                      (Some e, written, evs) \<Rightarrow>
                                        (Inl e,
                                         if stored
                                         then store_data self website_code info written
                                         else self,
                                         evs)
                                    | (None, encrypted, evs) \<Rightarrow>
                                        (Inr (Some encrypted),
                                         store_data self website_code info encrypted,
                                         evs @ [Delete_bytearray User_key])))))
      | _ \<Rightarrow> (Inl TypeError, self, []))"

section \<open>The account files of \<open>filesmanager.py\<close>\<close>

text \<open>
  The directory \<open>files/accounts\<close>: every account that exists is a sub-directory, given here
  by the files it holds (file name to content).  Paths are written from the directory that
  \<open>dirname(__file__, 2)\<close> names.
\<close>

record filesystem =
  accounts :: "string \<rightharpoonup> (string \<rightharpoonup> bytes)"

text \<open>
  \<open>re.match(r'^[A-Za-z0-9_-]+$', account)\<close>.  In Python \<open>$\<close> also matches just before a
  newline that ends the string.
\<close>

definition name_chars :: string where
  "name_chars = ''ABCDEFGHIJKLMNOPQRSTUVWXYZabcdefghijklmnopqrstuvwxyz0123456789_-''"

definition re_match :: "string \<Rightarrow> bool" where
  "re_match account =
     (let body = (if account \<noteq> [] \<and> last account = CHR 0x0A then butlast account else account)
      in body \<noteq> [] \<and> list_all (\<lambda>c. c \<in> set name_chars) body)"

definition is_valid_account_name :: "string \<Rightarrow> error + bool" where
  "is_valid_account_name account =
     (if length account = 0 then Inl ValueError else Inr (re_match account))"

definition account_dir :: "string \<Rightarrow> string" where
  "account_dir account = ''files/accounts/'' @ account"

definition exist_account :: "filesystem \<Rightarrow> string \<Rightarrow> error + bool" where
  "exist_account fs account =
     (case is_valid_account_name account of
        Inl e \<Rightarrow> Inl e
      | Inr valid \<Rightarrow>
          if \<not> valid then Inl ValueError else Inr (accounts fs account \<noteq> None))"

definition get_account_path :: "filesystem \<Rightarrow> string \<Rightarrow> error + string" where
  "get_account_path fs account =
     (case exist_account fs account of
        Inl e \<Rightarrow> Inl e
      | Inr exists \<Rightarrow> if \<not> exists then Inl ValueError else Inr (account_dir account))"

definition get_encryptedtext_filepath :: "filesystem \<Rightarrow> string \<Rightarrow> error + string" where
  "get_encryptedtext_filepath fs account =
     (case get_account_path fs account of
        Inl e \<Rightarrow> Inl e
      | Inr accountpath \<Rightarrow> Inr (accountpath @ ''/encryptedtext.bin''))"

text \<open>Reading and writing a file of an account, and \<open>shutil.rmtree\<close> of its directory.\<close>

definition file_read :: "filesystem \<Rightarrow> string \<Rightarrow> string \<Rightarrow> bytes option" where
  "file_read fs account file =
     (case accounts fs account of None \<Rightarrow> None | Some dir \<Rightarrow> dir file)"

definition file_write :: "filesystem \<Rightarrow> string \<Rightarrow> string \<Rightarrow> bytes \<Rightarrow> filesystem" where
  "file_write fs account file content =
     (case accounts fs account of
        None \<Rightarrow> fs
      | Some dir \<Rightarrow> fs\<lparr>accounts := (accounts fs)(account \<mapsto> dir(file \<mapsto> content))\<rparr>)"

definition rmtree :: "filesystem \<Rightarrow> string \<Rightarrow> filesystem" where
  "rmtree fs account = fs\<lparr>accounts := (accounts fs)(account := None)\<rparr>"

text \<open>
  \<open>delete_account\<close>: read the cipher text, write random bytes over the file, wipe the buffer
  read, remove the directory.
\<close>

definition delete_account ::
  "encryption \<Rightarrow> filesystem \<Rightarrow> string \<Rightarrow> (error + unit) \<times> filesystem \<times> event list" where
  "delete_account E fs account =
     (case get_account_path fs account of
        Inl e \<Rightarrow> (Inl e, fs, [])
      | Inr accountpath \<Rightarrow>
          (case get_encryptedtext_filepath fs account of
             Inl e \<Rightarrow> (Inl e, fs, [])
           | Inr encryptedtextfilepath \<Rightarrow>
               (case file_read fs account ''encryptedtext.bin'' of
                  None \<Rightarrow> (Inl FileNotFoundError, fs, [])
                | Some encryptedtext \<Rightarrow>
                    (let fresh = random_bytearray E (length encryptedtext);
                         fs1 = file_write fs account ''encryptedtext.bin'' fresh;
                         fs2 = rmtree fs1 account
                     in (Inr (), fs2,
                         [File_read encryptedtextfilepath,
                          File_write encryptedtextfilepath fresh,
                          Delete_bytearray Encryptedtext,
                          Rmtree accountpath])))))"

text \<open>
  \<open>load_encryptedtext\<close>: the checks on the arguments, the read, the call to the engine; when
  the engine reports an error the password and the pin are wiped before \<open>ComputationError\<close>
  is raised.
\<close>

definition load_encryptedtext ::
  "encryption \<Rightarrow> filesystem \<Rightarrow> string \<Rightarrow> bytes \<Rightarrow> bytes \<Rightarrow> (error + bytes) \<times> event list" where
  "load_encryptedtext E fs account password pin =
     (case get_encryptedtext_filepath fs account of
        Inl e \<Rightarrow> (Inl e, [])
      | Inr encryptedtextfilepath \<Rightarrow>
          if length password = 0 then (Inl ValueError, [])
          else if length pin = 0 then (Inl ValueError, [])
          else (case file_read fs account ''encryptedtext.bin'' of
                  None \<Rightarrow> (Inl FileNotFoundError, [])
                | Some encryptedtext \<Rightarrow>
                    (case pin_encryptedtext_to_data E encryptedtext password pin of
                       (is_error, error, data) \<Rightarrow>
                         if is_error
                         then (Inl (ComputationError error),
                               [File_read encryptedtextfilepath,
                                Delete_bytearray Password, Delete_bytearray Pin])
                         else (Inr data, [File_read encryptedtextfilepath]))))"

text \<open>
  \<open>dumps_encryptedtext\<close>: the same checks, the call to the engine, and the write; on an
  error of the engine the password, the pin and the data are wiped and nothing is written.
\<close>

definition dumps_encryptedtext ::
  "encryption \<Rightarrow> filesystem \<Rightarrow> string \<Rightarrow> bytes \<Rightarrow> bytes \<Rightarrow> bytes
     \<Rightarrow> (error + unit) \<times> filesystem \<times> event list" where
  "dumps_encryptedtext E fs account password pin data =
     (case get_encryptedtext_filepath fs account of
        Inl e \<Rightarrow> (Inl e, fs, [])
      | Inr encryptedtextfilepath \<Rightarrow>
          if length password = 0 then (Inl ValueError, fs, [])
          else if length pin = 0 then (Inl ValueError, fs, [])
          else (case pin_data_to_encryptedtext E data password pin of
                  (is_error, error, encryptedtext) \<Rightarrow>
                    if is_error
                    then (Inl (ComputationError error), fs,
                          [Delete_bytearray Password, Delete_bytearray Pin, Delete_bytearray Data])
                    else (Inr (), file_write fs account ''encryptedtext.bin'' encryptedtext,
                          [File_write encryptedtextfilepath encryptedtext])))"

section \<open>A reference instance of the parameters\<close>

text \<open>
  The theorems below hold for every standard library and every engine that meet the stated
  contracts.  The instance defined here meets them, and is used to run the model on concrete
  stores: text and bytes are translated character by character, the JSON functions are given
  on one sample website and the empty dictionary, and the engine writes the key and the call
  number in front of the plain bytes and checks the key when it reads them back.  As
  \<open>json\<close> does, the reference writes the sample website to the same text whether its datum is
  a tuple or a list, and reads that text as the dictionary \<open>sample_dict\<close>, whose datum is a list.
\<close>

definition sample_dict :: userdict where
  "sample_dict =
     [(''abcdefghij'',
       \<lparr>info_name = ''Amazon'', info_encrypted = False, info_data = [Datum_list ''login'' ''alice'']\<rparr>)]"


definition ref_stdlib :: stdlib where
  "ref_stdlib =
     \<lparr>utf8_encode = map of_char,
      utf8_decode = (\<lambda>bs. Inr (map (\<lambda>w. char_of (unat w)) bs)),
      json_dumps = (\<lambda>d. if reloaded d = sample_dict then ''{sample}'' else ''{}''),
      json_loads = (\<lambda>text. if text = ''{sample}'' then Inr sample_dict
                            else if text = ''{}'' then Inr [] else Inl JSONDecodeError),
      b64encode = (\<lambda>bs. bs),
      b64decode = (\<lambda>text. Inr (map of_char text)),
      random_choice = (\<lambda>n. n)\<rparr>"

definition ref_encryption :: encryption where
  "ref_encryption =
     \<lparr>data_to_encryptedtext = (\<lambda>i data k n. Inr (k @ of_nat i # data)),
      encryptedtext_to_data =
        (\<lambda>text k n. if take (length k) text = k \<and> length k < length text
                    then Inr (drop (Suc (length k)) text) else Inl WrongKeyError),
      pin_data_to_encryptedtext =
        (\<lambda>data password pin. if 4 < length data then (True, 2, [])
                             else (False, 0, password @ pin @ data)),
      pin_encryptedtext_to_data =
        (\<lambda>text password pin.
           if take (length password + length pin) text = password @ pin
           then (False, 0, drop (length password + length pin) text) else (True, 1, [])),
      random_bytearray = (\<lambda>n. replicate n 0xAA)\<rparr>"

text \<open>An account directory that holds a blob of seven bytes.\<close>

definition sample_fs :: filesystem where
  "sample_fs = \<lparr>accounts = [''alice-01'' \<mapsto> [''encryptedtext.bin'' \<mapsto> [104, 117, 52, 50, 1, 2, 3]]]\<rparr>"

text \<open>
  A site flagged encrypted that holds no data yet, as \<open>load\<close> gives it for a JSON text with
  \<open>"__encrypted__": true\<close>, and a list of two well-formed tuples to store in it.
\<close>

definition sample_encrypted :: userdict where
  "sample_encrypted =
     [(''abcdefghij'', \<lparr>info_name = ''Amazon'', info_encrypted = True, info_data = []\<rparr>)]"

definition sample_items :: "pyval list" where
  "sample_items =
     [Py_tuple [Py_str ''login'', Py_str ''alice''], Py_tuple [Py_str ''password'', Py_str ''hunter2'']]"

text \<open>
  \<open>ref_cipher k s\<close> is the text that the reference engine and codec store for the plain text
  \<open>s\<close> under the key \<open>k\<close>.  \<open>sample_secret\<close> holds two entries encrypted under the key
  \<open>[2]\<close>; \<open>sample_mixed\<close> holds an entry under the key \<open>[1]\<close> between them.  The entries
  are lists, as in a dictionary that \<open>load\<close> has read.
\<close>

definition ref_cipher :: "bytes \<Rightarrow> string \<Rightarrow> string" where
  "ref_cipher k s = map (\<lambda>w. char_of (unat w)) (k @ 0 # map of_char s)"

definition sample_mixed :: userdict where
  "sample_mixed =
     [(''abcdefghij'',
       \<lparr>info_name = ''Amazon'', info_encrypted = True,
        info_data = [Datum_list ''login'' (ref_cipher [2] ''alice''),
                     Datum_list ''password'' (ref_cipher [1] ''hunter2''),
                     Datum_list ''pin'' (ref_cipher [2] ''4242'')]\<rparr>)]"

definition sample_secret :: userdict where
  "sample_secret =
     [(''abcdefghij'',
       \<lparr>info_name = ''Amazon'', info_encrypted = True,
        info_data = [Datum_list ''login'' (ref_cipher [2] ''alice''), Datum_list ''pin'' (ref_cipher [2] ''4242'')]\<rparr>)]"

section \<open>Contracts of the parameters\<close>

text \<open>
  What the theorems on encrypted data assume of the library and of the engine: text survives
  encoding and decoding; the base64 text of some bytes, decoded as the class does it, gives the
  bytes back; what the engine encrypts under a key it decrypts under the same key
  (\<open>engine_round_trip\<close>) and rejects with \<open>WrongKeyError\<close> under the key \<open>k'\<close>
  (\<open>engine_rejects\<close>).
\<close>

definition utf8_contract :: "stdlib \<Rightarrow> bool" where
  "utf8_contract L \<longleftrightarrow> (\<forall>s. utf8_decode L (utf8_encode L s) = Inr s)"

definition b64_contract :: "stdlib \<Rightarrow> bool" where
  "b64_contract L \<longleftrightarrow>
     (\<forall>bs text. utf8_decode L (b64encode L bs) = Inr text \<longrightarrow> b64decode L text = Inr bs)"

definition engine_round_trip :: "encryption \<Rightarrow> bytes \<Rightarrow> bool" where
  "engine_round_trip E k \<longleftrightarrow>
     (\<forall>i data text. data_to_encryptedtext E i data k encryption_iterations = Inr text \<longrightarrow>
        encryptedtext_to_data E text k encryption_iterations = Inr data)"

definition engine_rejects :: "encryption \<Rightarrow> bytes \<Rightarrow> bytes \<Rightarrow> bool" where
  "engine_rejects E k k' \<longleftrightarrow>
     (\<forall>i data text. data_to_encryptedtext E i data k encryption_iterations = Inr text \<longrightarrow>
        encryptedtext_to_data E text k' encryption_iterations = Inl WrongKeyError)"

section \<open>Serialisation\<close>







text \<open>The reference text encoding is a bijection between characters and bytes.\<close>

lemma unat_of_char: "unat (of_char c :: 8 word) = of_char c"
proof -
  have "unat (of_char c :: 8 word) = unat (of_nat (of_char c) :: 8 word)"
    by (simp only: of_nat_of_char)
  also have "\<dots> = of_char c mod 256"
    by (simp add: unat_of_nat)
  also have "\<dots> = of_char c"
    by (rule of_char_mod_256)
  finally show ?thesis .
qed

lemma of_char_char_of_unat: "of_char (char_of (unat (w :: 8 word))) = w"
proof -
  have "unat w < 256"
    using unsigned_less [of w, where ?'a = nat] by simp
  then have "(of_char (char_of (unat w)) :: nat) = unat w"
    by simp
  then have "of_nat (of_char (char_of (unat w)) :: nat) = (of_nat (unat w) :: 8 word)"
    by simp
  then show ?thesis
    by (simp only: of_nat_of_char of_nat_unat ucast_id)
qed

lemma ref_utf8_round_trip: "utf8_decode ref_stdlib (utf8_encode ref_stdlib s) = Inr s"
  by (simp add: ref_stdlib_def comp_def unat_of_char)

lemma ref_b64_round_trip:
  "utf8_decode ref_stdlib (b64encode ref_stdlib bs) = Inr (map (\<lambda>w. char_of (unat w)) bs) \<and>
   b64decode ref_stdlib (map (\<lambda>w. char_of (unat w)) bs) = Inr bs"
  by (simp add: ref_stdlib_def comp_def of_char_char_of_unat)



text \<open>
  C5.  \<open>load\<close> has no effect on the buffer it is given: on every path, whether the bytes
  parse or not, the call ends without a single \<open>delete_bytearray\<close>, so the caller's buffer
  still holds the plain bytes.  The docstring of \<open>load\<close> announces that the data is deleted
  from the buffer.
\<close>

theorem load_keeps_buffer: "snd (snd (load L self data)) = []"
  by (simp add: load_def split: sum.splits)

section \<open>Website codes\<close>

lemma choice_chars: "choice L n chars \<in> set chars"
proof -
  have "0 < length chars" by (simp add: chars_def)
  then have "random_choice L n mod length chars < length chars" by simp
  then show ?thesis unfolding choice_def by (rule nth_mem)
qed

lemma draw_code_shape: "length (draw_code L n) = code_lenght \<and> set (draw_code L n) \<subseteq> set chars"
  by (auto simp: draw_code_def choice_chars)

lemma generate_loop_Some:
  assumes "generate_loop L website_codes reserved n = Some c"
  shows "(\<exists>m. c = draw_code L m) \<and> c \<notin> set website_codes \<and> c \<notin> set reserved"
proof (rule generate_loop.raw_induct
    [where P = "\<lambda>L ws rs n c. (\<exists>m. c = draw_code L m) \<and> c \<notin> set ws \<and> c \<notin> set rs", OF _ assms])
  fix f :: "stdlib \<Rightarrow> string list \<Rightarrow> string list \<Rightarrow> nat \<Rightarrow> string option"
  fix L ws rs n c
  assume IH: "\<And>L ws rs n c. f L ws rs n = Some c \<Longrightarrow>
                (\<exists>m. c = draw_code L m) \<and> c \<notin> set ws \<and> c \<notin> set rs"
  assume body: "(let website_code = draw_code L n in
                 if website_code \<in> set ws \<or> website_code \<in> set rs
                 then f L ws rs (n + code_lenght) else Some website_code) = Some c"
  show "(\<exists>m. c = draw_code L m) \<and> c \<notin> set ws \<and> c \<notin> set rs"
  proof (cases "draw_code L n \<in> set ws \<or> draw_code L n \<in> set rs")
    case True
    with body have "f L ws rs (n + code_lenght) = Some c"
      by (simp add: Let_def)
    then show ?thesis by (rule IH)
  next
    case False
    with body have "c = draw_code L n" by (simp add: Let_def)
    with False show ?thesis by blast
  qed
qed

lemma generate_loop_terminates:
  "draw_code L (n + j * code_lenght) \<notin> set website_codes \<union> set private \<Longrightarrow>
     \<exists>c. generate_loop L website_codes private n = Some c"
proof (induction j arbitrary: n)
  case 0
  then show ?case
    by (subst generate_loop.simps) (simp add: Let_def)
next
  case (Suc j)
  have "draw_code L ((n + code_lenght) + j * code_lenght) \<notin> set website_codes \<union> set private"
    using Suc.prems by (simp add: ac_simps)
  from Suc.IH [OF this] obtain c where c: "generate_loop L website_codes private (n + code_lenght) = Some c"
    by blast
  show ?case
    by (subst generate_loop.simps) (simp add: Let_def c)
qed

lemma keys_listed:
  "c \<notin> set (listing_website_codes self) \<Longrightarrow> c \<notin> set (private_website_code self) \<Longrightarrow>
     c \<notin> fst ` set (userdict self)"
  by (auto simp: listing_website_codes_def)

lemma add_website_fresh:
  assumes "c \<notin> set (listing_website_codes self)" "c \<notin> set (private_website_code self)"
  shows "add_website self c name =
    (Inr (), self\<lparr>userdict := AList.update c \<lparr>info_name = name, info_encrypted = False, info_data = []\<rparr> (userdict self)\<rparr>)"
  using assms
  by (simp add: add_website_def is_website_code_def set_website_name_def listing_website_codes_def
      getitem_def update_conv' dom_update image_iff)


text \<open>
  C7.  A code returned by \<open>generate_website_code\<close> has the fixed length \<open>code_lenght\<close>, is
  made of letters and digits only, is the code of no website in the dictionary (a reserved code
  that is a key included) and is not in the reserved list.  Adding a website under it succeeds,
  and once it is added no later call, whatever it draws, returns that code again.  The loop ends
  with a code as soon as one of the candidates drawn is neither a key nor reserved.
\<close>

theorem generate_website_code_fresh:
  "(generate_website_code L self = Some c \<longrightarrow>
      length c = code_lenght \<and> set c \<subseteq> set chars \<and>
      c \<notin> fst ` set (userdict self) \<and> c \<notin> set (private_website_code self) \<and>
      fst (add_website self c name) = Inr () \<and>
      (\<forall>L'. generate_website_code L' (snd (add_website self c name)) \<noteq> Some c)) \<and>
   ((\<exists>j. draw_code L (j * code_lenght) \<notin> fst ` set (userdict self) \<union> set (private_website_code self)) \<longrightarrow>
      (\<exists>c'. generate_website_code L self = Some c'))"
proof (intro conjI impI)
  assume gen: "generate_website_code L self = Some c"
  then have loop: "generate_loop L (listing_website_codes self) (private_website_code self) 0 = Some c"
    by (simp add: generate_website_code_def)
  from generate_loop_Some [OF loop] obtain m where m: "c = draw_code L m"
    and unlisted: "c \<notin> set (listing_website_codes self)"
    and unreserved: "c \<notin> set (private_website_code self)"
    by blast
  from m show "length c = code_lenght" and "set c \<subseteq> set chars"
    using draw_code_shape [of L m] by simp_all
  from unlisted unreserved show "c \<notin> fst ` set (userdict self)"
    by (rule keys_listed)
  from unreserved show "c \<notin> set (private_website_code self)" .
  note added = add_website_fresh [OF unlisted unreserved, of name]
  from added show "fst (add_website self c name) = Inr ()"
    by simp
  show "\<forall>L'. generate_website_code L' (snd (add_website self c name)) \<noteq> Some c"
  proof (intro allI notI)
    fix L'
    assume "generate_website_code L' (snd (add_website self c name)) = Some c"
    then have "generate_loop L' (listing_website_codes (snd (add_website self c name)))
                 (private_website_code (snd (add_website self c name))) 0 = Some c"
      by (simp add: generate_website_code_def)
    from generate_loop_Some [OF this]
    have "c \<notin> set (listing_website_codes (snd (add_website self c name)))"
      by blast
    moreover have "c \<in> set (listing_website_codes (snd (add_website self c name)))"
      using unreserved by (simp add: added listing_website_codes_def dom_update)
    ultimately show False by contradiction
  qed
next
  assume "\<exists>j. draw_code L (j * code_lenght) \<notin> fst ` set (userdict self) \<union> set (private_website_code self)"
  then obtain j where "draw_code L (j * code_lenght) \<notin> fst ` set (userdict self) \<union> set (private_website_code self)"
    by blast
  then have "draw_code L (0 + j * code_lenght) \<notin>
               set (listing_website_codes self) \<union> set (private_website_code self)"
    by (auto simp: listing_website_codes_def)
  from generate_loop_terminates [OF this]
  show "\<exists>c'. generate_website_code L self = Some c'"
    by (simp add: generate_website_code_def)
qed

lemma ref_draw_0: "draw_code ref_stdlib 0 = ''abcdefghij''"
  by code_simp

lemma ref_draw_10: "draw_code ref_stdlib 10 = ''klmnopqrst''"
  by code_simp

theorem generate_website_code_fresh_witness:
  "generate_website_code ref_stdlib \<lparr>userdict = sample_dict, private_website_code = []\<rparr> =
     Some ''klmnopqrst'' \<and>
   ''klmnopqrst'' \<notin> fst ` set sample_dict \<and>
   fst (add_website \<lparr>userdict = sample_dict, private_website_code = []\<rparr> ''klmnopqrst'' ''Shop'') = Inr ()"
proof -
  let ?self = "\<lparr>userdict = sample_dict, private_website_code = []\<rparr>"
  have codes: "listing_website_codes ?self = [''abcdefghij'']"
    by (simp add: listing_website_codes_def sample_dict_def)
  have "generate_loop ref_stdlib [''abcdefghij''] [] 0 = generate_loop ref_stdlib [''abcdefghij''] [] 10"
    by (subst generate_loop.simps) (simp add: ref_draw_0 code_lenght_def)
  also have "\<dots> = Some ''klmnopqrst''"
    by (subst generate_loop.simps) (simp add: ref_draw_10)
  finally have gen: "generate_website_code ref_stdlib ?self = Some ''klmnopqrst''"
    by (simp add: generate_website_code_def codes)
  from generate_website_code_fresh [of ref_stdlib ?self "''klmnopqrst''" "''Shop''"] gen
  show ?thesis by simp
qed

section \<open>The encryption flag\<close>

text \<open>
  C6.  A call \<open>self.set_website_data_encryption(website_code, set_encrypted)\<close> raises
  \<open>TypeError\<close> for every Binder, code and flag, whether the code is present or not, and leaves
  the Binder as it was; called with two arguments the function raises \<open>NameError\<close>.  It
  never raises the \<open>ValueError\<close> of an absent code and never sets a flag.
\<close>

theorem set_website_data_encryption_raises:
  "call_set_website_data_encryption self website_code set_encrypted = (Inl TypeError, self) \<and>
   set_website_data_encryption [Arg_str website_code, Arg_bool set_encrypted] = Inl NameError"
  by (simp add: call_set_website_data_encryption_def)

section \<open>The encrypted blob\<close>

lemma get_account_path_existing:
  assumes "is_valid_account_name account = Inr True" and "accounts fs account = Some dir"
  shows "get_account_path fs account = Inr (account_dir account)"
  using assms by (simp add: get_account_path_def exist_account_def)

lemma get_encryptedtext_filepath_existing:
  assumes "is_valid_account_name account = Inr True" and "accounts fs account = Some dir"
  shows "get_encryptedtext_filepath fs account = Inr (account_dir account @ ''/encryptedtext.bin'')"
  using assms by (simp add: get_encryptedtext_filepath_def get_account_path_existing)

text \<open>
  C8.  For an account that exists and holds its blob, \<open>delete_account\<close> succeeds with exactly
  four effects in this order: the blob is read, the blob file is overwritten with the bytes that
  \<open>random_bytearray\<close> returns for the length of the old cipher text (as many bytes as the old
  cipher text, by the engine's contract for that length), the buffer that holds the old cipher
  text is wiped, and only then is the directory removed.  The file system just before the removal
  holds the random bytes in the blob file; afterwards the account is gone.
\<close>

theorem delete_account_shreds_before_unlink:
  assumes "is_valid_account_name account = Inr True"
    and "accounts fs account = Some dir"
    and "dir ''encryptedtext.bin'' = Some encryptedtext"
    and "length (random_bytearray E (length encryptedtext)) = length encryptedtext"
  shows "\<exists>fresh fs'.
           delete_account E fs account =
             (Inr (), fs',
              [File_read (account_dir account @ ''/encryptedtext.bin''),
               File_write (account_dir account @ ''/encryptedtext.bin'') fresh,
               Delete_bytearray Encryptedtext,
               Rmtree (account_dir account)]) \<and>
           fresh = random_bytearray E (length encryptedtext) \<and>
           length fresh = length encryptedtext \<and>
           fs' = rmtree (file_write fs account ''encryptedtext.bin'' fresh) account \<and>
           file_read (file_write fs account ''encryptedtext.bin'' fresh) account ''encryptedtext.bin''
             = Some fresh \<and>
           accounts fs' account = None"
proof -
  have read: "file_read fs account ''encryptedtext.bin'' = Some encryptedtext"
    using assms(2,3) by (simp add: file_read_def)
  have written: "file_read (file_write fs account ''encryptedtext.bin'' fresh) account
                   ''encryptedtext.bin'' = Some fresh" for fresh
    using assms(2) by (simp add: file_read_def file_write_def)
  have gone: "accounts (rmtree fs1 account) account = None" for fs1
    by (simp add: rmtree_def)
  show ?thesis
    using assms(4) read written gone
    by (simp add: delete_account_def Let_def
        get_account_path_existing [OF assms(1,2)]
        get_encryptedtext_filepath_existing [OF assms(1,2)])
qed

lemma valid_alice: "is_valid_account_name ''alice-01'' = Inr True"
  by (simp add: is_valid_account_name_def re_match_def name_chars_def)

theorem delete_account_shreds_before_unlink_witness:
  "delete_account ref_encryption sample_fs ''alice-01'' =
     (Inr (), \<lparr>accounts = Map.empty\<rparr>,
      [File_read ''files/accounts/alice-01/encryptedtext.bin'',
       File_write ''files/accounts/alice-01/encryptedtext.bin''
         [0xAA, 0xAA, 0xAA, 0xAA, 0xAA, 0xAA, 0xAA],
       Delete_bytearray Encryptedtext,
       Rmtree ''files/accounts/alice-01''])"
proof -
  have dir: "accounts sample_fs ''alice-01'' =
               Some [''encryptedtext.bin'' \<mapsto> [104, 117, 52, 50, 1, 2, 3]]"
    by (simp add: sample_fs_def)
  have blob: "[''encryptedtext.bin'' \<mapsto> [104, 117, 52, 50, 1, 2, 3 :: 8 word]] ''encryptedtext.bin''
                = Some [104, 117, 52, 50, 1, 2, 3]"
    by simp
  have len: "length (random_bytearray ref_encryption (length [104, 117, 52, 50, 1, 2, 3 :: 8 word])) =
               length [104, 117, 52, 50, 1, 2, 3 :: 8 word]"
    by (simp add: ref_encryption_def)
  have fresh: "random_bytearray ref_encryption n = replicate n 0xAA" for n
    by (simp add: ref_encryption_def)
  have final: "rmtree (file_write sample_fs ''alice-01'' ''encryptedtext.bin'' c) ''alice-01'' =
                 \<lparr>accounts = Map.empty\<rparr>" for c
    by (simp add: rmtree_def file_write_def sample_fs_def)
  from delete_account_shreds_before_unlink [OF valid_alice dir blob len, of ]
  show ?thesis
    by (simp add: fresh final account_dir_def)
qed


text \<open>
  C9.  For an account that exists and a password and a pin that are not empty: when the engine
  reports an error while decrypting the blob, \<open>load_encryptedtext\<close> wipes the password and
  then the pin and only then raises its error; when the engine reports an error while
  encrypting, \<open>dumps_encryptedtext\<close> wipes the password, the pin and the data, raises its
  error and writes nothing.
\<close>

theorem engine_failure_wipes_secrets:
  assumes "is_valid_account_name account = Inr True"
    and "accounts fs account = Some dir"
    and "password \<noteq> []" and "pin \<noteq> []"
  shows "(dir ''encryptedtext.bin'' = Some encryptedtext \<and>
          pin_encryptedtext_to_data E encryptedtext password pin = (True, n, d) \<longrightarrow>
            load_encryptedtext E fs account password pin =
              (Inl (ComputationError n),
               [File_read (account_dir account @ ''/encryptedtext.bin''),
                Delete_bytearray Password, Delete_bytearray Pin])) \<and>
         (pin_data_to_encryptedtext E data password pin = (True, n, d) \<longrightarrow>
            dumps_encryptedtext E fs account password pin data =
              (Inl (ComputationError n), fs,
               [Delete_bytearray Password, Delete_bytearray Pin, Delete_bytearray Data]))"
proof (intro conjI impI)
  note path = get_encryptedtext_filepath_existing [OF assms(1,2)]
  {
    assume "dir ''encryptedtext.bin'' = Some encryptedtext \<and>
            pin_encryptedtext_to_data E encryptedtext password pin = (True, n, d)"
    then have read: "file_read fs account ''encryptedtext.bin'' = Some encryptedtext"
      and failed: "pin_encryptedtext_to_data E encryptedtext password pin = (True, n, d)"
      using assms(2) by (simp_all add: file_read_def)
    show "load_encryptedtext E fs account password pin =
            (Inl (ComputationError n),
             [File_read (account_dir account @ ''/encryptedtext.bin''),
              Delete_bytearray Password, Delete_bytearray Pin])"
      using assms(3,4) by (simp add: load_encryptedtext_def path read failed)
  }
  {
    assume failed: "pin_data_to_encryptedtext E data password pin = (True, n, d)"
    show "dumps_encryptedtext E fs account password pin data =
            (Inl (ComputationError n), fs,
             [Delete_bytearray Password, Delete_bytearray Pin, Delete_bytearray Data])"
      using assms(3,4) by (simp add: dumps_encryptedtext_def path failed)
  }
qed

theorem engine_failure_wipes_secrets_witness:
  "load_encryptedtext ref_encryption sample_fs ''alice-01'' [119, 114, 111, 110, 103] [52, 50] =
     (Inl (ComputationError 1),
      [File_read ''files/accounts/alice-01/encryptedtext.bin'',
       Delete_bytearray Password, Delete_bytearray Pin]) \<and>
   dumps_encryptedtext ref_encryption sample_fs ''alice-01'' [104, 117] [52, 50] [1, 2, 3, 4, 5] =
     (Inl (ComputationError 2), sample_fs,
      [Delete_bytearray Password, Delete_bytearray Pin, Delete_bytearray Data])"
proof -
  have dir: "accounts sample_fs ''alice-01'' =
               Some [''encryptedtext.bin'' \<mapsto> [104, 117, 52, 50, 1, 2, 3]]"
    by (simp add: sample_fs_def)
  have load_fails:
    "[''encryptedtext.bin'' \<mapsto> [104, 117, 52, 50, 1, 2, 3 :: 8 word]] ''encryptedtext.bin'' =
       Some [104, 117, 52, 50, 1, 2, 3] \<and>
     pin_encryptedtext_to_data ref_encryption [104, 117, 52, 50, 1, 2, 3]
       [119, 114, 111, 110, 103] [52, 50] = (True, 1, [])"
    by (simp add: ref_encryption_def)
  have dump_fails:
    "pin_data_to_encryptedtext ref_encryption [1, 2, 3, 4, 5] [104, 117] [52, 50] = (True, 2, [])"
    by (simp add: ref_encryption_def)
  have a: "load_encryptedtext ref_encryption sample_fs ''alice-01'' [119, 114, 111, 110, 103] [52, 50] =
     (Inl (ComputationError 1),
      [File_read ''files/accounts/alice-01/encryptedtext.bin'',
       Delete_bytearray Password, Delete_bytearray Pin])"
    using engine_failure_wipes_secrets [OF valid_alice dir, of "[119, 114, 111, 110, 103]" "[52, 50]"
        "[104, 117, 52, 50, 1, 2, 3]" ref_encryption 1 "[]"] load_fails
    by (simp add: account_dir_def)
  have b: "dumps_encryptedtext ref_encryption sample_fs ''alice-01'' [104, 117] [52, 50] [1, 2, 3, 4, 5] =
     (Inl (ComputationError 2), sample_fs,
      [Delete_bytearray Password, Delete_bytearray Pin, Delete_bytearray Data])"
    using engine_failure_wipes_secrets [OF valid_alice dir, of "[104, 117]" "[52, 50]"
        _ ref_encryption 2 "[]" "[1, 2, 3, 4, 5]"] dump_fails
    by simp
  from a b show ?thesis by blast
qed

section \<open>Website data\<close>

subsection \<open>The two loops\<close>

text \<open>
  A value that passes the check on its shape is the tuple of the two strings that \<open>the_datum\<close>
  reads from it.
\<close>

lemma well_structured_the_datum:
  assumes "well_structured v"
  shows "v = Py_tuple [Py_str (item0 (the_datum v)), Py_str (item1 (the_datum v))]"
proof -
  from assms obtain vs where v: "v = Py_tuple vs" and len: "length vs = 2"
    and strs: "list_all is_str vs"
    by (cases v) auto
  from len obtain a b where vs: "vs = [a, b]"
    by (cases vs; cases "tl vs") auto
  from strs vs obtain t d where "a = Py_str t" "b = Py_str d"
    by (cases a; cases b) auto
  with v vs show ?thesis by simp
qed

lemma the_datum_tuple: "Datum_tuple (item0 (the_datum v)) (item1 (the_datum v)) = the_datum v"
  by (induction v rule: the_datum.induct) simp_all

lemma is_encrypted_website_dataD:
  assumes "is_encrypted_website_data self website_code = Inr b"
  shows "is_website_code self website_code \<and>
         (\<exists>info. getitem (userdict self) website_code = Inr info \<and> info_encrypted info = b)"
  using assms
  by (auto simp: is_encrypted_website_data_def map_sum_def split: if_splits sum.splits)

lemma store_data_lookup:
  assumes "is_website_code self website_code"
  shows "is_website_code (store_data self website_code info website_data) website_code"
    and "getitem (userdict (store_data self website_code info website_data)) website_code =
           Inr (info\<lparr>info_data := website_data\<rparr>)"
    and "is_encrypted_website_data (store_data self website_code info website_data) website_code =
           Inr (info_encrypted info)"
  using assms
  by (auto simp: store_data_def is_website_code_def listing_website_codes_def getitem_def
      is_encrypted_website_data_def update_conv' dom_update)

lemma decrypt_loop_all:
  "list_all2 (\<lambda>datum plain. try_datum L E k datum = Inr plain) ds ps \<Longrightarrow>
     decrypt_loop L E k i ds = (None, ps, map Try_datum [i..<i + length ds])"
proof (induction ds ps arbitrary: i rule: list_all2_induct)
  case Nil
  then show ?case by simp
next
  case (Cons d ds p ps)
  have "[i..<i + length (d # ds)] = i # [Suc i..<Suc i + length ds]"
    using upt_conv_Cons [of i "i + length (d # ds)"] by simp
  with Cons show ?case by (simp del: upt_Suc)
qed

lemma decrypt_loop_first_failure:
  "list_all2 (\<lambda>datum plain. try_datum L E k datum = Inr plain) pre ps \<Longrightarrow>
   try_datum L E k datum = Inl e \<Longrightarrow>
     decrypt_loop L E k i (pre @ datum # post) =
       (Some e, ps @ datum # post,
        map Try_datum [i..<i + Suc (length pre)] @
          (if e = WrongKeyError then [Delete_bytearray User_key] else []))"
proof (induction pre ps arbitrary: i rule: list_all2_induct)
  case Nil
  then show ?case by simp
next
  case (Cons d ds p ps)
  have "[i..<i + Suc (length (d # ds))] = i # [Suc i..<Suc i + Suc (length ds)]"
    using upt_conv_Cons [of i "i + Suc (length (d # ds))"] by simp
  with Cons show ?case by (simp del: upt_Suc)
qed

lemma decrypt_loop_wipes:
  "decrypt_loop L E k i ds = (r, ds', evs) \<Longrightarrow>
     count_list evs (Delete_bytearray User_key) = (if r = Some WrongKeyError then 1 else 0)"
proof (induction ds arbitrary: i r ds' evs)
  case Nil
  then show ?case by auto
next
  case (Cons d ds)
  show ?case
  proof (cases "try_datum L E k d")
    case (Inl e)
    with Cons.prems show ?thesis by (auto split: if_splits)
  next
    case (Inr p)
    obtain r1 ds1 evs1 where rec: "decrypt_loop L E k (Suc i) ds = (r1, ds1, evs1)"
      by (cases "decrypt_loop L E k (Suc i) ds") auto
    with Cons.prems Inr have "r = r1" "evs = Try_datum i # evs1"
      by auto
    with Cons.IH [OF rec] show ?thesis by simp
  qed
qed

lemma encrypt_loop_wipes:
  "encrypt_loop L E k i ds = (r, ds', evs) \<Longrightarrow> count_list evs (Delete_bytearray User_key) = 0"
proof (induction ds arbitrary: i r ds' evs)
  case Nil
  then show ?case by auto
next
  case (Cons d ds)
  show ?case
  proof (cases "encrypt_datum L E k i d")
    case (Inl e)
    with Cons.prems show ?thesis by auto
  next
    case (Inr p)
    obtain r1 ds1 evs1 where rec: "encrypt_loop L E k (Suc i) ds = (r1, ds1, evs1)"
      by (cases "encrypt_loop L E k (Suc i) ds") auto
    with Cons.prems Inr have "evs = Encrypt_datum i # evs1"
      by auto
    with Cons.IH [OF rec] show ?thesis by simp
  qed
qed

lemma encrypt_loop_success:
  "encrypt_loop L E k i ds = (None, es, evs) \<Longrightarrow>
     list_all2 (\<lambda>encrypted datum. \<exists>j. encrypt_datum L E k j datum = Inr encrypted) es ds"
proof (induction ds arbitrary: i es evs)
  case Nil
  then show ?case by simp
next
  case (Cons d ds)
  show ?case
  proof (cases "encrypt_datum L E k i d")
    case (Inl e)
    with Cons.prems show ?thesis by simp
  next
    case (Inr p)
    obtain r1 ds1 evs1 where rec: "encrypt_loop L E k (Suc i) ds = (r1, ds1, evs1)"
      by (cases "encrypt_loop L E k (Suc i) ds") auto
    with Cons.prems Inr have "r1 = None" "es = p # ds1"
      by auto
    with Cons.IH [of "Suc i" ds1 evs1] rec Inr show ?thesis by auto
  qed
qed

lemma try_datum_encrypt_datum:
  assumes "utf8_contract L" and "b64_contract L" and "engine_round_trip E k"
    and "encrypt_datum L E k j datum = Inr encrypted"
  shows "try_datum L E k encrypted = Inr (Datum_tuple (item0 datum) (item1 datum))"
proof -
  from assms(4) obtain ct t where
    enc: "data_to_encryptedtext E j (utf8_encode L (item1 datum)) k encryption_iterations = Inr ct"
    and t: "utf8_decode L (b64encode L ct) = Inr t"
    and e: "encrypted = Datum_tuple (item0 datum) t"
    by (auto simp: encrypt_datum_def split: sum.splits)
  from assms(2) t have "b64decode L t = Inr ct"
    by (simp add: b64_contract_def)
  moreover from assms(3) enc
  have "encryptedtext_to_data E ct k encryption_iterations = Inr (utf8_encode L (item1 datum))"
    by (simp add: engine_round_trip_def)
  moreover from assms(1) have "utf8_decode L (utf8_encode L (item1 datum)) = Inr (item1 datum)"
    by (simp add: utf8_contract_def)
  ultimately show ?thesis
    by (simp add: try_datum_def e)
qed

lemma try_datum_wrong_key:
  assumes "b64_contract L" and "engine_rejects E k k'"
    and "encrypt_datum L E k j datum = Inr encrypted"
  shows "try_datum L E k' encrypted = Inl WrongKeyError"
proof -
  from assms(3) obtain ct t where
    enc: "data_to_encryptedtext E j (utf8_encode L (item1 datum)) k encryption_iterations = Inr ct"
    and t: "utf8_decode L (b64encode L ct) = Inr t"
    and e: "encrypted = Datum_tuple (item0 datum) t"
    by (auto simp: encrypt_datum_def split: sum.splits)
  from assms(1) t have "b64decode L t = Inr ct"
    by (simp add: b64_contract_def)
  moreover from assms(2) enc
  have "encryptedtext_to_data E ct k' encryption_iterations = Inl WrongKeyError"
    by (simp add: engine_rejects_def)
  ultimately show ?thesis
    by (simp add: try_datum_def e)
qed

lemma get_website_data_encrypted:
  assumes "is_encrypted_website_data self website_code = Inr True"
    and "getitem (userdict self) website_code = Inr info"
    and "decrypt_loop L E k 0 (info_data info) = (r, website_data, evs)"
  shows "get_website_data L E self website_code (Bytearray k) =
           (case r of
              Some e \<Rightarrow> (Inl e, store_data self website_code info website_data, evs)
            | None \<Rightarrow> (Inr website_data, store_data self website_code info website_data,
                       evs @ [Delete_bytearray User_key]))"
  using assms by (simp add: get_website_data_def split: option.splits)

lemma set_website_data_encrypted:
  assumes "is_encrypted_website_data self website_code = Inr True"
    and "getitem (userdict self) website_code = Inr info"
    and "list_all well_structured items"
    and "encrypt_loop L E k 0 (map the_datum items) = (r, encrypted, evs)"
  shows "set_website_data L E self website_code (Py_list items) stored (Bytearray k) =
           (case r of
              Some e \<Rightarrow>
                (Inl e, if stored then store_data self website_code info encrypted else self, evs)
            | None \<Rightarrow> (Inr (Some encrypted), store_data self website_code info encrypted,
                       evs @ [Delete_bytearray User_key]))"
  using assms by (simp add: set_website_data_def split: option.splits)

lemma get_website_data_first_failure:
  assumes "is_encrypted_website_data self website_code = Inr True"
    and "getitem (userdict self) website_code = Inr info"
    and "info_data info = pre @ datum # post"
    and "list_all2 (\<lambda>d p. try_datum L E k d = Inr p) pre plain"
    and "try_datum L E k datum = Inl WrongKeyError"
  shows "get_website_data L E self website_code (Bytearray k) =
           (Inl WrongKeyError, store_data self website_code info (plain @ datum # post),
            map Try_datum [0..<Suc (length pre)] @ [Delete_bytearray User_key])"
proof -
  have "decrypt_loop L E k 0 (info_data info) =
          (Some WrongKeyError, plain @ datum # post,
           map Try_datum [0..<Suc (length pre)] @ [Delete_bytearray User_key])"
    using decrypt_loop_first_failure [OF assms(4,5), of 0 post] assms(3) by simp
  from get_website_data_encrypted [OF assms(1,2) this] show ?thesis
    by simp
qed

lemma get_website_data_success:
  assumes "is_encrypted_website_data self website_code = Inr True"
    and "getitem (userdict self) website_code = Inr info"
    and "list_all2 (\<lambda>d p. try_datum L E k d = Inr p) (info_data info) plain"
  shows "get_website_data L E self website_code (Bytearray k) =
           (Inr plain, store_data self website_code info plain,
            map Try_datum [0..<length (info_data info)] @ [Delete_bytearray User_key])"
proof -
  have "decrypt_loop L E k 0 (info_data info) =
          (None, plain, map Try_datum [0..<length (info_data info)])"
    using decrypt_loop_all [OF assms(3), of 0] by simp
  from get_website_data_encrypted [OF assms(1,2) this] show ?thesis
    by simp
qed

subsection \<open>The reference instance meets the contracts\<close>

lemma ref_contracts:
  "utf8_contract ref_stdlib" "b64_contract ref_stdlib" "engine_round_trip ref_encryption k"
proof -
  show "utf8_contract ref_stdlib"
    by (simp add: utf8_contract_def ref_utf8_round_trip)
  show "b64_contract ref_stdlib"
    using ref_b64_round_trip by (auto simp: b64_contract_def)
  show "engine_round_trip ref_encryption k"
    by (auto simp: engine_round_trip_def ref_encryption_def)
qed

lemma ref_encrypt_loop:
  "fst (encrypt_loop ref_stdlib ref_encryption k i ds) = None"
proof (induction ds arbitrary: i)
  case Nil
  then show ?case by simp
next
  case (Cons d ds)
  have "\<exists>e. encrypt_datum ref_stdlib ref_encryption k i d = Inr e"
    by (simp add: encrypt_datum_def ref_stdlib_def ref_encryption_def)
  then obtain e where "encrypt_datum ref_stdlib ref_encryption k i d = Inr e" ..
  with Cons [of "Suc i"] show ?case
    by (cases "encrypt_loop ref_stdlib ref_encryption k (Suc i) ds") auto
qed

lemma sample_encrypted_flag:
  "is_encrypted_website_data \<lparr>userdict = sample_encrypted, private_website_code = []\<rparr>
     ''abcdefghij'' = Inr True"
  "getitem (userdict \<lparr>userdict = sample_encrypted, private_website_code = []\<rparr>) ''abcdefghij'' =
     Inr \<lparr>info_name = ''Amazon'', info_encrypted = True, info_data = []\<rparr>"
  by (simp_all add: is_encrypted_website_data_def is_website_code_def listing_website_codes_def
      getitem_def sample_encrypted_def)

lemma ref_set_website_data:
  assumes "list_all well_structured items"
  shows "\<exists>encrypted evs.
           set_website_data ref_stdlib ref_encryption
             \<lparr>userdict = sample_encrypted, private_website_code = []\<rparr> ''abcdefghij''
             (Py_list items) False (Bytearray k) =
           (Inr (Some encrypted),
            store_data \<lparr>userdict = sample_encrypted, private_website_code = []\<rparr> ''abcdefghij''
              \<lparr>info_name = ''Amazon'', info_encrypted = True, info_data = []\<rparr> encrypted,
            evs)"
proof -
  obtain r encrypted evs where
    loop: "encrypt_loop ref_stdlib ref_encryption k 0 (map the_datum items) = (r, encrypted, evs)"
    by (cases "encrypt_loop ref_stdlib ref_encryption k 0 (map the_datum items)") auto
  with ref_encrypt_loop [of k 0 "map the_datum items"] have "r = None"
    by simp
  with set_website_data_encrypted [OF sample_encrypted_flag assms loop]
  show ?thesis by simp
qed

lemma ref_try_datum:
  "try_datum ref_stdlib ref_encryption k (Datum_list t (ref_cipher k s)) = Inr (Datum_tuple t s)"
  by (simp add: try_datum_def ref_cipher_def ref_stdlib_def ref_encryption_def comp_def
      of_char_char_of_unat unat_of_char)

lemma ref_try_datum_wrong:
  "length k' = length k \<Longrightarrow> k' \<noteq> k \<Longrightarrow>
     try_datum ref_stdlib ref_encryption k' (Datum_list t (ref_cipher k s)) = Inl WrongKeyError"
  by (simp add: try_datum_def ref_cipher_def ref_stdlib_def ref_encryption_def comp_def
      of_char_char_of_unat unat_of_char)

lemma ref_engine_rejects: "length k' = length k \<Longrightarrow> k' \<noteq> k \<Longrightarrow> engine_rejects ref_encryption k k'"
  by (auto simp: engine_rejects_def ref_encryption_def)

lemma sample_flags:
  "is_encrypted_website_data \<lparr>userdict = sample_mixed, private_website_code = []\<rparr>
     ''abcdefghij'' = Inr True"
  "is_encrypted_website_data \<lparr>userdict = sample_secret, private_website_code = []\<rparr>
     ''abcdefghij'' = Inr True"
  "is_encrypted_website_data \<lparr>userdict = sample_dict, private_website_code = []\<rparr>
     ''abcdefghij'' = Inr False"
  by (simp_all add: is_encrypted_website_data_def is_website_code_def listing_website_codes_def
      getitem_def sample_mixed_def sample_secret_def sample_dict_def)

lemma sample_infos:
  "getitem (userdict \<lparr>userdict = sample_mixed, private_website_code = []\<rparr>) ''abcdefghij'' =
     Inr \<lparr>info_name = ''Amazon'', info_encrypted = True,
        info_data = [Datum_list ''login'' (ref_cipher [2] ''alice''),
                     Datum_list ''password'' (ref_cipher [1] ''hunter2''),
                     Datum_list ''pin'' (ref_cipher [2] ''4242'')]\<rparr>"
  "getitem (userdict \<lparr>userdict = sample_secret, private_website_code = []\<rparr>) ''abcdefghij'' =
     Inr \<lparr>info_name = ''Amazon'', info_encrypted = True,
        info_data = [Datum_list ''login'' (ref_cipher [2] ''alice''), Datum_list ''pin'' (ref_cipher [2] ''4242'')]\<rparr>"
  by (simp_all add: getitem_def sample_mixed_def sample_secret_def)

subsection \<open>Storing and reading back\<close>

text \<open>
  C2.  For a site flagged encrypted, a list of 2-tuples of strings and a key: when
  \<open>set_website_data\<close> has returned, \<open>get_website_data\<close> with the same key bytes returns the
  tuples that were given, provided text round-trips through the encoding, base64 text decodes
  to the bytes it was made from, and the engine decrypts under the key what it encrypted under
  it.  The call that stores has wiped its key buffer once, so the call that reads needs a copy.
\<close>

theorem set_get_round_trip:
  assumes "utf8_contract L" and "b64_contract L" and "engine_round_trip E k"
    and "is_encrypted_website_data self website_code = Inr True"
    and "set_website_data L E self website_code (Py_list items) stored (Bytearray k) = (Inr r, self', evs)"
  shows "fst (get_website_data L E self' website_code (Bytearray k)) = Inr (map the_datum items) \<and>
         list_all well_structured items \<and>
         count_list evs (Delete_bytearray User_key) = 1"
proof -
  from is_encrypted_website_dataD [OF assms(4)] obtain info where
    code: "is_website_code self website_code"
    and info: "getitem (userdict self) website_code = Inr info"
    and flag: "info_encrypted info"
    by auto
  have shape: "list_all well_structured items"
    using assms(5) by (auto simp: set_website_data_def split: if_splits)
  obtain r1 encrypted evs1 where
    loop: "encrypt_loop L E k 0 (map the_datum items) = (r1, encrypted, evs1)"
    by (cases "encrypt_loop L E k 0 (map the_datum items)") auto
  from set_website_data_encrypted [OF assms(4) info shape loop] assms(5)
  have r1: "r1 = None"
    and self': "self' = store_data self website_code info encrypted"
    and evs: "evs = evs1 @ [Delete_bytearray User_key]"
    by (auto split: option.splits)
  from encrypt_loop_success [OF loop [unfolded r1]]
  have "list_all2 (\<lambda>encrypted v. \<exists>j. encrypt_datum L E k j (the_datum v) = Inr encrypted)
          encrypted items"
    by (simp add: list_all2_map2)
  then have "list_all2 (\<lambda>encrypted v. try_datum L E k encrypted = Inr (the_datum v))
               encrypted items"
  proof (rule list_all2_mono)
    fix encrypted v
    assume "\<exists>j. encrypt_datum L E k j (the_datum v) = Inr encrypted"
    then obtain j where "encrypt_datum L E k j (the_datum v) = Inr encrypted" ..
    from try_datum_encrypt_datum [OF assms(1-3) this]
    show "try_datum L E k encrypted = Inr (the_datum v)"
      by (simp add: the_datum_tuple)
  qed
  then have plain: "list_all2 (\<lambda>datum plain. try_datum L E k datum = Inr plain)
                      encrypted (map the_datum items)"
    by (simp add: list_all2_map2)
  note stored = store_data_lookup [OF code, of info encrypted]
  have "decrypt_loop L E k 0 (info_data (info\<lparr>info_data := encrypted\<rparr>)) =
          (None, map the_datum items, map Try_datum [0..<0 + length encrypted])"
    using decrypt_loop_all [OF plain, of 0] by simp
  moreover have "is_encrypted_website_data (store_data self website_code info encrypted)
                   website_code = Inr True"
    using stored(3) flag by simp
  ultimately
  have "fst (get_website_data L E self' website_code (Bytearray k)) = Inr (map the_datum items)"
    using get_website_data_encrypted [OF _ stored(2)] by (simp add: self')
  moreover from encrypt_loop_wipes [OF loop] have "count_list evs (Delete_bytearray User_key) = 1"
    by (simp add: evs)
  ultimately show ?thesis
    using shape by simp
qed

theorem set_get_round_trip_witness:
  "fst (get_website_data ref_stdlib ref_encryption
         (fst (snd (set_website_data ref_stdlib ref_encryption
                      \<lparr>userdict = sample_encrypted, private_website_code = []\<rparr>
                      ''abcdefghij'' (Py_list sample_items) False (Bytearray [1, 2, 3]))))
         ''abcdefghij'' (Bytearray [1, 2, 3])) =
   Inr [Datum_tuple ''login'' ''alice'', Datum_tuple ''password'' ''hunter2'']"
proof -
  have "list_all well_structured sample_items"
    by (simp add: sample_items_def)
  from ref_set_website_data [OF this, of "[1, 2, 3]"] obtain encrypted evs self' where
    set: "set_website_data ref_stdlib ref_encryption
            \<lparr>userdict = sample_encrypted, private_website_code = []\<rparr>
            ''abcdefghij'' (Py_list sample_items) False (Bytearray [1, 2, 3]) =
          (Inr (Some encrypted), self', evs)"
    by blast
  from set_get_round_trip [OF ref_contracts sample_encrypted_flag(1) set]
  have "fst (get_website_data ref_stdlib ref_encryption self' ''abcdefghij'' (Bytearray [1, 2, 3])) =
          Inr (map the_datum sample_items)"
    by simp
  then show ?thesis
    unfolding set by (simp add: sample_items_def)
qed

subsection \<open>The wrong key\<close>

text \<open>
  C3, as amended.  For a site flagged encrypted and a key buffer: when the \<open>try\<close> block
  raises \<open>WrongKeyError\<close> at some tuple and succeeds on all tuples before it, the call raises
  \<open>WrongKeyError\<close>, returns no data, and wipes the key exactly once, right after that tuple
  and without looking at the later ones, whatever they hold.  When every tuple decrypts, the
  call returns the plain tuples and wipes the key exactly once, after the last tuple.  When the
  data was stored by \<open>set_website_data\<close> under a key \<open>k0\<close>, holds at least one tuple, and
  the engine rejects the key \<open>k\<close> on what it encrypted under \<open>k0\<close>, the call with \<open>k\<close> fails
  at the first tuple.
\<close>

theorem get_website_data_wrong_key:
  assumes "is_encrypted_website_data self website_code = Inr True"
    and "getitem (userdict self) website_code = Inr info"
  shows
    "(\<forall>pre plain datum post.
        info_data info = pre @ datum # post \<and>
        list_all2 (\<lambda>d p. try_datum L E k d = Inr p) pre plain \<and>
        try_datum L E k datum = Inl WrongKeyError \<longrightarrow>
          fst (get_website_data L E self website_code (Bytearray k)) = Inl WrongKeyError \<and>
          snd (snd (get_website_data L E self website_code (Bytearray k))) =
            map Try_datum [0..<Suc (length pre)] @ [Delete_bytearray User_key]) \<and>
     (\<forall>plain.
        list_all2 (\<lambda>d p. try_datum L E k d = Inr p) (info_data info) plain \<longrightarrow>
          fst (get_website_data L E self website_code (Bytearray k)) = Inr plain \<and>
          snd (snd (get_website_data L E self website_code (Bytearray k))) =
            map Try_datum [0..<length (info_data info)] @ [Delete_bytearray User_key]) \<and>
     (\<forall>k0 self0 items r evs0.
        b64_contract L \<and> engine_rejects E k0 k \<and> items \<noteq> [] \<and>
        is_encrypted_website_data self0 website_code = Inr True \<and>
        set_website_data L E self0 website_code (Py_list items) stored (Bytearray k0) = (Inr r, self, evs0)
        \<longrightarrow>
          fst (get_website_data L E self website_code (Bytearray k)) = Inl WrongKeyError \<and>
          snd (snd (get_website_data L E self website_code (Bytearray k))) =
            [Try_datum 0, Delete_bytearray User_key])"
proof (intro conjI allI impI)
  fix pre plain datum post
  assume "info_data info = pre @ datum # post \<and>
          list_all2 (\<lambda>d p. try_datum L E k d = Inr p) pre plain \<and>
          try_datum L E k datum = Inl WrongKeyError"
  then have "get_website_data L E self website_code (Bytearray k) =
           (Inl WrongKeyError, store_data self website_code info (plain @ datum # post),
            map Try_datum [0..<Suc (length pre)] @ [Delete_bytearray User_key])"
    using get_website_data_first_failure [OF assms] by blast
  then show "fst (get_website_data L E self website_code (Bytearray k)) = Inl WrongKeyError"
    and "snd (snd (get_website_data L E self website_code (Bytearray k))) =
            map Try_datum [0..<Suc (length pre)] @ [Delete_bytearray User_key]"
    by simp_all
next
  fix plain
  assume "list_all2 (\<lambda>d p. try_datum L E k d = Inr p) (info_data info) plain"
  from get_website_data_success [OF assms this]
  show "fst (get_website_data L E self website_code (Bytearray k)) = Inr plain"
    and "snd (snd (get_website_data L E self website_code (Bytearray k))) =
            map Try_datum [0..<length (info_data info)] @ [Delete_bytearray User_key]"
    by simp_all
next
  fix k0 self0 items r evs0
  assume hyp: "b64_contract L \<and> engine_rejects E k0 k \<and> items \<noteq> [] \<and>
        is_encrypted_website_data self0 website_code = Inr True \<and>
        set_website_data L E self0 website_code (Py_list items) stored (Bytearray k0) = (Inr r, self, evs0)"
  then have flag0: "is_encrypted_website_data self0 website_code = Inr True"
    and set: "set_website_data L E self0 website_code (Py_list items) stored (Bytearray k0) =
                (Inr r, self, evs0)"
    and contracts: "b64_contract L" "engine_rejects E k0 k" and nonempty: "items \<noteq> []"
    by simp_all
  from is_encrypted_website_dataD [OF flag0] obtain info0 where
    code: "is_website_code self0 website_code"
    and info0: "getitem (userdict self0) website_code = Inr info0"
    by auto
  have shape: "list_all well_structured items"
    using set by (auto simp: set_website_data_def split: if_splits)
  obtain r1 encrypted evs1 where
    loop: "encrypt_loop L E k0 0 (map the_datum items) = (r1, encrypted, evs1)"
    by (cases "encrypt_loop L E k0 0 (map the_datum items)") auto
  from set_website_data_encrypted [OF flag0 info0 shape loop] set
  have r1: "r1 = None" and self: "self = store_data self0 website_code info0 encrypted"
    by (auto split: option.splits)
  from store_data_lookup(2) [OF code, of info0 encrypted] assms(2)
  have "info = info0\<lparr>info_data := encrypted\<rparr>"
    by (simp add: self)
  then have data: "info_data info = encrypted"
    by simp
  from encrypt_loop_success [OF loop [unfolded r1]]
  have all: "list_all2 (\<lambda>encrypted datum. \<exists>j. encrypt_datum L E k0 j datum = Inr encrypted)
          encrypted (map the_datum items)" .
  with nonempty obtain e es d ds where
    split: "encrypted = e # es" "map the_datum items = d # ds"
    and first: "\<exists>j. encrypt_datum L E k0 j d = Inr e"
    by (cases encrypted; cases items) auto
  from first try_datum_wrong_key [OF contracts]
  have "try_datum L E k e = Inl WrongKeyError"
    by blast
  from get_website_data_first_failure [OF assms, of "[]" e es L E k "[]"] this
  have "get_website_data L E self website_code (Bytearray k) =
           (Inl WrongKeyError, store_data self website_code info (e # es),
            [Try_datum 0, Delete_bytearray User_key])"
    by (simp add: data split)
  then show "fst (get_website_data L E self website_code (Bytearray k)) = Inl WrongKeyError"
    and "snd (snd (get_website_data L E self website_code (Bytearray k))) =
            [Try_datum 0, Delete_bytearray User_key]"
    by simp_all
qed

text \<open>
  Without a tuple there is nothing to reject: a site whose data was set to the empty list under
  the key \<open>[1]\<close> is read with the key \<open>[2]\<close>, which the engine rejects, and the call returns
  the empty list.
\<close>

theorem get_website_data_wrong_key_counterexample:
  "engine_rejects ref_encryption [1] [2] \<and>
   fst (get_website_data ref_stdlib ref_encryption
         (fst (snd (set_website_data ref_stdlib ref_encryption
                      \<lparr>userdict = sample_encrypted, private_website_code = []\<rparr>
                      ''abcdefghij'' (Py_list []) False (Bytearray [1]))))
         ''abcdefghij'' (Bytearray [2])) = Inr []"
proof -
  have "engine_rejects ref_encryption [1] [2]"
    by (rule ref_engine_rejects) simp_all
  moreover have same:
    "store_data \<lparr>userdict = sample_encrypted, private_website_code = []\<rparr> ''abcdefghij''
       \<lparr>info_name = ''Amazon'', info_encrypted = True, info_data = []\<rparr> [] =
     \<lparr>userdict = sample_encrypted, private_website_code = []\<rparr>"
    by (simp add: store_data_def sample_encrypted_def)
  moreover have "set_website_data ref_stdlib ref_encryption
                      \<lparr>userdict = sample_encrypted, private_website_code = []\<rparr>
                      ''abcdefghij'' (Py_list []) False (Bytearray [1]) =
     (Inr (Some []), \<lparr>userdict = sample_encrypted, private_website_code = []\<rparr>,
      [Delete_bytearray User_key])"
    using sample_encrypted_flag same by (simp add: set_website_data_def)
  moreover have "get_website_data ref_stdlib ref_encryption
         \<lparr>userdict = sample_encrypted, private_website_code = []\<rparr>
         ''abcdefghij'' (Bytearray [2]) =
     (Inr [], \<lparr>userdict = sample_encrypted, private_website_code = []\<rparr>,
      [Delete_bytearray User_key])"
    using sample_encrypted_flag same by (simp add: get_website_data_def)
  ultimately show ?thesis by simp
qed

theorem get_website_data_wrong_key_witness:
  "fst (get_website_data ref_stdlib ref_encryption
         \<lparr>userdict = sample_mixed, private_website_code = []\<rparr> ''abcdefghij'' (Bytearray [2])) =
     Inl WrongKeyError \<and>
   snd (snd (get_website_data ref_stdlib ref_encryption
         \<lparr>userdict = sample_mixed, private_website_code = []\<rparr> ''abcdefghij'' (Bytearray [2]))) =
     [Try_datum 0, Try_datum 1, Delete_bytearray User_key] \<and>
   fst (get_website_data ref_stdlib ref_encryption
         \<lparr>userdict = sample_secret, private_website_code = []\<rparr> ''abcdefghij'' (Bytearray [2])) =
     Inr [Datum_tuple ''login'' ''alice'', Datum_tuple ''pin'' ''4242''] \<and>
   snd (snd (get_website_data ref_stdlib ref_encryption
         \<lparr>userdict = sample_secret, private_website_code = []\<rparr> ''abcdefghij'' (Bytearray [2]))) =
     [Try_datum 0, Try_datum 1, Delete_bytearray User_key] \<and>
   fst (get_website_data ref_stdlib ref_encryption
         (fst (snd (set_website_data ref_stdlib ref_encryption
                      \<lparr>userdict = sample_encrypted, private_website_code = []\<rparr>
                      ''abcdefghij'' (Py_list sample_items) False (Bytearray [1]))))
         ''abcdefghij'' (Bytearray [2])) = Inl WrongKeyError"
proof -
  let ?get = "get_website_data ref_stdlib ref_encryption"
  have mixed:
    "fst (?get \<lparr>userdict = sample_mixed, private_website_code = []\<rparr> ''abcdefghij'' (Bytearray [2])) =
       Inl WrongKeyError \<and>
     snd (snd (?get \<lparr>userdict = sample_mixed, private_website_code = []\<rparr> ''abcdefghij''
       (Bytearray [2]))) = [Try_datum 0, Try_datum 1, Delete_bytearray User_key]"
  proof -
    have pre: "list_all2 (\<lambda>d p. try_datum ref_stdlib ref_encryption [2] d = Inr p)
                 [Datum_list ''login'' (ref_cipher [2] ''alice'')] [Datum_tuple ''login'' ''alice'']"
      by (simp add: ref_try_datum)
    have bad: "try_datum ref_stdlib ref_encryption [2]
                 (Datum_list ''password'' (ref_cipher [1] ''hunter2'')) =
                 Inl WrongKeyError"
      by (rule ref_try_datum_wrong) simp_all
    have "[0..<Suc (Suc 0)] = [0, Suc 0]"
      by (simp add: upt_conv_Cons)
    with get_website_data_wrong_key [OF sample_flags(1) sample_infos(1),
        of ref_stdlib ref_encryption "[2]", THEN conjunct1, rule_format,
        of "[Datum_list ''login'' (ref_cipher [2] ''alice'')]" "Datum_list ''password'' (ref_cipher [1] ''hunter2'')"
          "[Datum_list ''pin'' (ref_cipher [2] ''4242'')]" "[Datum_tuple ''login'' ''alice'']"] pre bad
    show ?thesis
      by (simp del: upt_Suc)
  qed
  have secret:
    "fst (?get \<lparr>userdict = sample_secret, private_website_code = []\<rparr> ''abcdefghij'' (Bytearray [2])) =
       Inr [Datum_tuple ''login'' ''alice'', Datum_tuple ''pin'' ''4242''] \<and>
     snd (snd (?get \<lparr>userdict = sample_secret, private_website_code = []\<rparr> ''abcdefghij''
       (Bytearray [2]))) = [Try_datum 0, Try_datum 1, Delete_bytearray User_key]"
  proof -
    have all: "list_all2 (\<lambda>d p. try_datum ref_stdlib ref_encryption [2] d = Inr p)
                 [Datum_list ''login'' (ref_cipher [2] ''alice''), Datum_list ''pin'' (ref_cipher [2] ''4242'')]
                 [Datum_tuple ''login'' ''alice'', Datum_tuple ''pin'' ''4242'']"
      by (simp add: ref_try_datum)
    have "[0..<Suc (Suc 0)] = [0, Suc 0]"
      by (simp add: upt_conv_Cons)
    with get_website_data_wrong_key [OF sample_flags(2) sample_infos(2),
        of ref_stdlib ref_encryption "[2]", THEN conjunct2, THEN conjunct1, rule_format,
        of "[Datum_tuple ''login'' ''alice'', Datum_tuple ''pin'' ''4242'']"] all
    show ?thesis
      by (simp del: upt_Suc)
  qed
  have after_set:
    "fst (?get (fst (snd (set_website_data ref_stdlib ref_encryption
                      \<lparr>userdict = sample_encrypted, private_website_code = []\<rparr>
                      ''abcdefghij'' (Py_list sample_items) False (Bytearray [1]))))
         ''abcdefghij'' (Bytearray [2])) = Inl WrongKeyError"
  proof -
    let ?S = "\<lparr>userdict = sample_encrypted, private_website_code = []\<rparr>"
    let ?info = "\<lparr>info_name = ''Amazon'', info_encrypted = True, info_data = []\<rparr>"
    have shape: "list_all well_structured sample_items" and nonempty: "sample_items \<noteq> []"
      by (simp_all add: sample_items_def)
    from ref_set_website_data [OF shape, of "[1]"] obtain encrypted evs where
      set: "set_website_data ref_stdlib ref_encryption ?S ''abcdefghij'' (Py_list sample_items) False
              (Bytearray [1]) =
            (Inr (Some encrypted), store_data ?S ''abcdefghij'' ?info encrypted, evs)"
      by blast
    have code: "is_website_code ?S ''abcdefghij''"
      using is_encrypted_website_dataD [OF sample_encrypted_flag(1)] by simp
    note stored = store_data_lookup [OF code, of ?info encrypted]
    have flag: "is_encrypted_website_data (store_data ?S ''abcdefghij'' ?info encrypted)
                  ''abcdefghij'' = Inr True"
      using stored(3) by simp
    have rejects: "engine_rejects ref_encryption [1] [2]"
      by (rule ref_engine_rejects) simp_all
    from get_website_data_wrong_key [OF flag stored(2), of ref_stdlib ref_encryption "[2]",
        THEN conjunct2, THEN conjunct2, rule_format]
      ref_contracts(2) rejects nonempty sample_encrypted_flag(1) set
    have "fst (?get (store_data ?S ''abcdefghij'' ?info encrypted) ''abcdefghij'' (Bytearray [2])) =
            Inl WrongKeyError"
      by blast
    then show ?thesis
      by (simp add: set)
  qed
  from mixed secret after_set show ?thesis
    by blast
qed

subsection \<open>The store after reading\<close>

text \<open>
  C10.  For a site flagged encrypted, \<open>get_website_data\<close> with a key buffer writes into the
  store: afterwards the list of the site holds the plain text of every tuple when all of them
  decrypt, and the plain text of the tuples before the failing one, followed by the untouched
  rest, when a tuple raises \<open>WrongKeyError\<close>; in either case the flag of the site is still
  true.  The call is no mere read: when the plain tuples differ from the stored ones, the Binder
  after the call is not the Binder before it.
\<close>

theorem get_website_data_rewrites_store:
  assumes "is_encrypted_website_data self website_code = Inr True"
    and "getitem (userdict self) website_code = Inr info"
  shows
    "is_encrypted_website_data (fst (snd (get_website_data L E self website_code (Bytearray k))))
       website_code = Inr True \<and>
     (\<forall>plain.
        list_all2 (\<lambda>d p. try_datum L E k d = Inr p) (info_data info) plain \<longrightarrow>
          getitem (userdict (fst (snd (get_website_data L E self website_code (Bytearray k)))))
            website_code = Inr (info\<lparr>info_data := plain\<rparr>)) \<and>
     (\<forall>pre plain datum post.
        info_data info = pre @ datum # post \<and>
        list_all2 (\<lambda>d p. try_datum L E k d = Inr p) pre plain \<and>
        try_datum L E k datum = Inl WrongKeyError \<longrightarrow>
          getitem (userdict (fst (snd (get_website_data L E self website_code (Bytearray k)))))
            website_code = Inr (info\<lparr>info_data := plain @ datum # post\<rparr>)) \<and>
     (\<forall>plain.
        list_all2 (\<lambda>d p. try_datum L E k d = Inr p) (info_data info) plain \<and>
        plain \<noteq> info_data info \<longrightarrow>
          fst (snd (get_website_data L E self website_code (Bytearray k))) \<noteq> self)"
proof (intro conjI allI impI)
  from is_encrypted_website_dataD [OF assms(1)] assms(2)
  have code: "is_website_code self website_code" and flag: "info_encrypted info"
    by auto
  note stored = store_data_lookup [OF code, of info]
  {
    fix plain
    assume "list_all2 (\<lambda>d p. try_datum L E k d = Inr p) (info_data info) plain \<and>
            plain \<noteq> info_data info"
    then have all: "list_all2 (\<lambda>d p. try_datum L E k d = Inr p) (info_data info) plain"
      and differs: "plain \<noteq> info_data info"
      by simp_all
    from get_website_data_success [OF assms all] stored(2) [of plain]
    have "getitem (userdict (fst (snd (get_website_data L E self website_code (Bytearray k)))))
            website_code = Inr (info\<lparr>info_data := plain\<rparr>)"
      by simp
    moreover from differs have "info\<lparr>info_data := plain\<rparr> \<noteq> info"
      by (metis website_info.select_convs(3) website_info.surjective website_info.update_convs(3))
    ultimately
    show "fst (snd (get_website_data L E self website_code (Bytearray k))) \<noteq> self"
      using assms(2) by auto
  }
  obtain r website_data evs where
    loop: "decrypt_loop L E k 0 (info_data info) = (r, website_data, evs)"
    by (cases "decrypt_loop L E k 0 (info_data info)") auto
  from get_website_data_encrypted [OF assms loop]
  have "fst (snd (get_website_data L E self website_code (Bytearray k))) =
          store_data self website_code info website_data"
    by (simp split: option.splits)
  with stored(3) [of website_data] flag
  show "is_encrypted_website_data (fst (snd (get_website_data L E self website_code (Bytearray k))))
          website_code = Inr True"
    by simp
  {
    fix plain
    assume "list_all2 (\<lambda>d p. try_datum L E k d = Inr p) (info_data info) plain"
    from get_website_data_success [OF assms this] stored(2) [of plain]
    show "getitem (userdict (fst (snd (get_website_data L E self website_code (Bytearray k)))))
            website_code = Inr (info\<lparr>info_data := plain\<rparr>)"
      by simp
  }
  {
    fix pre plain datum post
    assume "info_data info = pre @ datum # post \<and>
        list_all2 (\<lambda>d p. try_datum L E k d = Inr p) pre plain \<and>
        try_datum L E k datum = Inl WrongKeyError"
    then have "get_website_data L E self website_code (Bytearray k) =
           (Inl WrongKeyError, store_data self website_code info (plain @ datum # post),
            map Try_datum [0..<Suc (length pre)] @ [Delete_bytearray User_key])"
      using get_website_data_first_failure [OF assms] by blast
    with stored(2) [of "plain @ datum # post"]
    show "getitem (userdict (fst (snd (get_website_data L E self website_code (Bytearray k)))))
            website_code = Inr (info\<lparr>info_data := plain @ datum # post\<rparr>)"
      by simp
  }
qed

theorem get_website_data_rewrites_store_witness:
  "is_encrypted_website_data
     (fst (snd (get_website_data ref_stdlib ref_encryption
        \<lparr>userdict = sample_mixed, private_website_code = []\<rparr> ''abcdefghij'' (Bytearray [2]))))
     ''abcdefghij'' = Inr True \<and>
   getitem (userdict (fst (snd (get_website_data ref_stdlib ref_encryption
        \<lparr>userdict = sample_mixed, private_website_code = []\<rparr> ''abcdefghij'' (Bytearray [2])))))
     ''abcdefghij'' =
     Inr \<lparr>info_name = ''Amazon'', info_encrypted = True,
          info_data = [Datum_tuple ''login'' ''alice'',
                       Datum_list ''password'' (ref_cipher [1] ''hunter2''),
                       Datum_list ''pin'' (ref_cipher [2] ''4242'')]\<rparr> \<and>
   getitem (userdict (fst (snd (get_website_data ref_stdlib ref_encryption
        \<lparr>userdict = sample_secret, private_website_code = []\<rparr> ''abcdefghij'' (Bytearray [2])))))
     ''abcdefghij'' =
     Inr \<lparr>info_name = ''Amazon'', info_encrypted = True,
          info_data = [Datum_tuple ''login'' ''alice'', Datum_tuple ''pin'' ''4242'']\<rparr> \<and>
   fst (snd (get_website_data ref_stdlib ref_encryption
        \<lparr>userdict = sample_secret, private_website_code = []\<rparr> ''abcdefghij'' (Bytearray [2]))) \<noteq>
     \<lparr>userdict = sample_secret, private_website_code = []\<rparr>"
proof -
  note mixed = get_website_data_rewrites_store [OF sample_flags(1) sample_infos(1),
      of ref_stdlib ref_encryption "[2]"]
  note secret = get_website_data_rewrites_store [OF sample_flags(2) sample_infos(2),
      of ref_stdlib ref_encryption "[2]"]
  have pre: "list_all2 (\<lambda>d p. try_datum ref_stdlib ref_encryption [2] d = Inr p)
               [Datum_list ''login'' (ref_cipher [2] ''alice'')] [Datum_tuple ''login'' ''alice'']"
    by (simp add: ref_try_datum)
  have bad: "try_datum ref_stdlib ref_encryption [2]
                 (Datum_list ''password'' (ref_cipher [1] ''hunter2'')) =
               Inl WrongKeyError"
    by (rule ref_try_datum_wrong) simp_all
  have all: "list_all2 (\<lambda>d p. try_datum ref_stdlib ref_encryption [2] d = Inr p)
               [Datum_list ''login'' (ref_cipher [2] ''alice''), Datum_list ''pin'' (ref_cipher [2] ''4242'')]
               [Datum_tuple ''login'' ''alice'', Datum_tuple ''pin'' ''4242'']"
    by (simp add: ref_try_datum)
  from mixed [THEN conjunct1]
  have a: "is_encrypted_website_data
     (fst (snd (get_website_data ref_stdlib ref_encryption
        \<lparr>userdict = sample_mixed, private_website_code = []\<rparr> ''abcdefghij'' (Bytearray [2]))))
     ''abcdefghij'' = Inr True" .
  from mixed [THEN conjunct2, THEN conjunct2, THEN conjunct1, rule_format,
      of "[Datum_list ''login'' (ref_cipher [2] ''alice'')]" "Datum_list ''password'' (ref_cipher [1] ''hunter2'')"
        "[Datum_list ''pin'' (ref_cipher [2] ''4242'')]" "[Datum_tuple ''login'' ''alice'']"] pre bad
  have b: "getitem (userdict (fst (snd (get_website_data ref_stdlib ref_encryption
        \<lparr>userdict = sample_mixed, private_website_code = []\<rparr> ''abcdefghij'' (Bytearray [2])))))
     ''abcdefghij'' =
     Inr \<lparr>info_name = ''Amazon'', info_encrypted = True,
          info_data = [Datum_tuple ''login'' ''alice'',
                       Datum_list ''password'' (ref_cipher [1] ''hunter2''),
                       Datum_list ''pin'' (ref_cipher [2] ''4242'')]\<rparr>"
    by simp
  from secret [THEN conjunct2, THEN conjunct1, rule_format,
      of "[Datum_tuple ''login'' ''alice'', Datum_tuple ''pin'' ''4242'']"] all
  have c: "getitem (userdict (fst (snd (get_website_data ref_stdlib ref_encryption
        \<lparr>userdict = sample_secret, private_website_code = []\<rparr> ''abcdefghij'' (Bytearray [2])))))
     ''abcdefghij'' =
     Inr \<lparr>info_name = ''Amazon'', info_encrypted = True,
          info_data = [Datum_tuple ''login'' ''alice'', Datum_tuple ''pin'' ''4242'']\<rparr>"
    by simp
  have "[Datum_tuple ''login'' ''alice'', Datum_tuple ''pin'' ''4242''] \<noteq>
          [Datum_list ''login'' (ref_cipher [2] ''alice''), Datum_list ''pin'' (ref_cipher [2] ''4242'')]"
    by (simp add: ref_cipher_def)
  with secret [THEN conjunct2, THEN conjunct2, THEN conjunct2, rule_format,
      of "[Datum_tuple ''login'' ''alice'', Datum_tuple ''pin'' ''4242'']"] all
  have d: "fst (snd (get_website_data ref_stdlib ref_encryption
        \<lparr>userdict = sample_secret, private_website_code = []\<rparr> ''abcdefghij'' (Bytearray [2]))) \<noteq>
     \<lparr>userdict = sample_secret, private_website_code = []\<rparr>"
    by simp
  from a b c d show ?thesis by blast
qed

subsection \<open>The life of the key buffer\<close>

text \<open>
  C4, as amended.  On a site flagged encrypted, a call of \<open>get_website_data\<close> with a key
  buffer that returns or raises \<open>WrongKeyError\<close> has wiped the key exactly once, and so has a
  call of \<open>set_website_data\<close> that returns.  On a site that is not flagged encrypted both
  calls end without any effect on the key, whatever is passed as key.
\<close>

theorem key_wiped_on_encrypted_site:
  "(is_encrypted_website_data self website_code = Inr True \<longrightarrow>
      (\<forall>r self' evs.
         get_website_data L E self website_code (Bytearray k) = (r, self', evs) \<and>
         (r = Inl WrongKeyError \<or> (\<exists>plain. r = Inr plain)) \<longrightarrow>
           count_list evs (Delete_bytearray User_key) = 1) \<and>
      (\<forall>r self' evs.
         set_website_data L E self website_code website_data stored (Bytearray k) = (Inr r, self', evs)
         \<longrightarrow> count_list evs (Delete_bytearray User_key) = 1)) \<and>
   (is_encrypted_website_data self website_code = Inr False \<longrightarrow>
      snd (snd (get_website_data L E self website_code user_key)) = [] \<and>
      snd (snd (set_website_data L E self website_code website_data stored user_key)) = [])"
proof (intro conjI impI allI)
  fix r self' evs
  assume flag: "is_encrypted_website_data self website_code = Inr True"
  assume "get_website_data L E self website_code (Bytearray k) = (r, self', evs) \<and>
          (r = Inl WrongKeyError \<or> (\<exists>plain. r = Inr plain))"
  then have get: "get_website_data L E self website_code (Bytearray k) = (r, self', evs)"
    and outcome: "r = Inl WrongKeyError \<or> (\<exists>plain. r = Inr plain)"
    by simp_all
  from is_encrypted_website_dataD [OF flag] obtain info where
    info: "getitem (userdict self) website_code = Inr info"
    by auto
  obtain r1 website_data1 evs1 where
    loop: "decrypt_loop L E k 0 (info_data info) = (r1, website_data1, evs1)"
    by (cases "decrypt_loop L E k 0 (info_data info)") auto
  note wipes = decrypt_loop_wipes [OF loop]
  show "count_list evs (Delete_bytearray User_key) = 1"
  proof (cases r1)
    case None
    with get_website_data_encrypted [OF flag info loop] get wipes show ?thesis
      by simp
  next
    case (Some e)
    with get_website_data_encrypted [OF flag info loop] get
    have "r = Inl e" and "evs = evs1"
      by simp_all
    with outcome Some wipes show ?thesis
      by auto
  qed
next
  fix r self' evs
  assume flag: "is_encrypted_website_data self website_code = Inr True"
  assume set: "set_website_data L E self website_code website_data stored (Bytearray k) = (Inr r, self', evs)"
  from is_encrypted_website_dataD [OF flag] obtain info where
    info: "getitem (userdict self) website_code = Inr info"
    by auto
  from set obtain items where items: "website_data = Py_list items"
    by (cases website_data) (simp_all add: set_website_data_def)
  have shape: "list_all well_structured items"
    using set by (auto simp: items set_website_data_def split: if_splits)
  obtain r1 encrypted evs1 where
    loop: "encrypt_loop L E k 0 (map the_datum items) = (r1, encrypted, evs1)"
    by (cases "encrypt_loop L E k 0 (map the_datum items)") auto
  from set_website_data_encrypted [OF flag info shape loop] set
  have "evs = evs1 @ [Delete_bytearray User_key]"
    by (auto simp: items split: option.splits)
  with encrypt_loop_wipes [OF loop] show "count_list evs (Delete_bytearray User_key) = 1"
    by simp
next
  assume flag: "is_encrypted_website_data self website_code = Inr False"
  then show "snd (snd (get_website_data L E self website_code user_key)) = []"
    by (simp add: get_website_data_def split: sum.splits)
  from flag show "snd (snd (set_website_data L E self website_code website_data stored user_key)) = []"
    by (simp add: set_website_data_def split: sum.splits pyval.splits)
qed

text \<open>
  A site that is not flagged encrypted: \<open>get_website_data\<close> with a key buffer returns the
  data and the key has not been wiped.
\<close>

theorem key_wiped_counterexample:
  "fst (get_website_data ref_stdlib ref_encryption
         \<lparr>userdict = sample_dict, private_website_code = []\<rparr> ''abcdefghij''
         (Bytearray [1, 2, 3])) = Inr [Datum_list ''login'' ''alice''] \<and>
   Delete_bytearray User_key \<notin>
     set (snd (snd (get_website_data ref_stdlib ref_encryption
            \<lparr>userdict = sample_dict, private_website_code = []\<rparr> ''abcdefghij''
            (Bytearray [1, 2, 3]))))"
proof -
  have "getitem (userdict \<lparr>userdict = sample_dict, private_website_code = []\<rparr>) ''abcdefghij'' =
          Inr \<lparr>info_name = ''Amazon'', info_encrypted = False,
               info_data = [Datum_list ''login'' ''alice'']\<rparr>"
    by (simp add: getitem_def sample_dict_def)
  with sample_flags(3) show ?thesis
    by (simp add: get_website_data_def)
qed

theorem key_wiped_on_encrypted_site_witness:
  "count_list (snd (snd (get_website_data ref_stdlib ref_encryption
     \<lparr>userdict = sample_mixed, private_website_code = []\<rparr> ''abcdefghij'' (Bytearray [2]))))
     (Delete_bytearray User_key) = 1 \<and>
   count_list (snd (snd (set_website_data ref_stdlib ref_encryption
     \<lparr>userdict = sample_encrypted, private_website_code = []\<rparr> ''abcdefghij''
     (Py_list sample_items) False (Bytearray [1])))) (Delete_bytearray User_key) = 1 \<and>
   snd (snd (set_website_data ref_stdlib ref_encryption
     \<lparr>userdict = sample_dict, private_website_code = []\<rparr> ''abcdefghij''
     (Py_list sample_items) False (Bytearray [1]))) = []"
proof -
  let ?get = "get_website_data ref_stdlib ref_encryption
     \<lparr>userdict = sample_mixed, private_website_code = []\<rparr> ''abcdefghij'' (Bytearray [2])"
  let ?set = "set_website_data ref_stdlib ref_encryption
     \<lparr>userdict = sample_encrypted, private_website_code = []\<rparr> ''abcdefghij''
     (Py_list sample_items) False (Bytearray [1])"
  have pre: "list_all2 (\<lambda>d p. try_datum ref_stdlib ref_encryption [2] d = Inr p)
               [Datum_list ''login'' (ref_cipher [2] ''alice'')] [Datum_tuple ''login'' ''alice'']"
    by (simp add: ref_try_datum)
  have bad: "try_datum ref_stdlib ref_encryption [2]
                 (Datum_list ''password'' (ref_cipher [1] ''hunter2'')) =
               Inl WrongKeyError"
    by (rule ref_try_datum_wrong) simp_all
  from get_website_data_first_failure [OF sample_flags(1) sample_infos(1) _ pre bad]
  have "\<exists>self1 evs1. ?get = (Inl WrongKeyError, self1, evs1)"
    by simp
  then obtain self1 evs1 where get: "?get = (Inl WrongKeyError, self1, evs1)"
    by blast
  with key_wiped_on_encrypted_site [of "\<lparr>userdict = sample_mixed, private_website_code = []\<rparr>"
      "''abcdefghij''" ref_stdlib ref_encryption "[2]", THEN conjunct1, rule_format,
      OF sample_flags(1), THEN conjunct1, rule_format, of "Inl WrongKeyError" self1 evs1]
  have "count_list evs1 (Delete_bytearray User_key) = 1"
    by blast
  then have a: "count_list (snd (snd ?get)) (Delete_bytearray User_key) = 1"
    by (simp add: get)
  have "list_all well_structured sample_items"
    by (simp add: sample_items_def)
  from ref_set_website_data [OF this, of "[1]"] obtain encrypted self' evs where
    set: "?set = (Inr (Some encrypted), self', evs)"
    by blast
  with key_wiped_on_encrypted_site [of "\<lparr>userdict = sample_encrypted, private_website_code = []\<rparr>"
      "''abcdefghij''" ref_stdlib ref_encryption "[1]" "Py_list sample_items" False,
      THEN conjunct1, rule_format, OF sample_encrypted_flag(1), THEN conjunct2, rule_format]
  have b: "count_list (snd (snd ?set)) (Delete_bytearray User_key) = 1"
    by simp
  from key_wiped_on_encrypted_site [of "\<lparr>userdict = sample_dict, private_website_code = []\<rparr>"
      "''abcdefghij''" ref_stdlib ref_encryption _ "Py_list sample_items" False "Bytearray [1]",
      THEN conjunct2, rule_format, OF sample_flags(3), THEN conjunct2]
  have c: "snd (snd (set_website_data ref_stdlib ref_encryption
     \<lparr>userdict = sample_dict, private_website_code = []\<rparr> ''abcdefghij''
     (Py_list sample_items) False (Bytearray [1]))) = []" .
  from a b c show ?thesis by blast
qed

end
